theory Spec2Isabelle
  imports Complex_Main
begin

section \<open>Values, rows and table declarations\<close>

text \<open>
  A value held in a column of the store or in a cell of a data frame. \<open>CNull\<close> stands for
  SQL NULL and for the missing values of pandas (None, NaN, NaT); \<open>COpaque\<close> is a Python
  object that is no column value (the \<open>_sa_instance_state\<close> entry of \<open>vars(obj)\<close>).
  Dates are day numbers, identifiers (UUIDs) and timestamps are numbers.
\<close>

datatype cell = CNull | CStr string | CNum rat | CDate nat | CUuid nat | CTime nat | COpaque

text \<open>A row, a keyword dictionary and an entity instance are ordered mappings from column
  names to values.\<close>

type_synonym row = "(string \<times> cell) list"

definition getc :: "row \<Rightarrow> string \<Rightarrow> cell" where
  "getc r c = (case map_of r c of Some v \<Rightarrow> v | None \<Rightarrow> CNull)"

datatype cdefault = NoDefault | UuidDefault | NowDefault

record column =
  cname :: string
  nullable :: bool
  cdefault :: cdefault

record fkey =
  fk_cols :: "string list"
  fk_table :: string
  fk_refs :: "string list"

text \<open>A declarative model class: its table, its columns, its unique indexes (the primary
  key first) and its foreign keys.\<close>

record model =
  tablename :: string
  cols :: "column list"
  uniques :: "string list list"
  fkeys :: "fkey list"

definition col :: "string \<Rightarrow> bool \<Rightarrow> cdefault \<Rightarrow> column" where
  "col n nl d = \<lparr>cname = n, nullable = nl, cdefault = d\<rparr>"

definition fk :: "string list \<Rightarrow> string \<Rightarrow> string list \<Rightarrow> fkey" where
  "fk cs t rs = \<lparr>fk_cols = cs, fk_table = t, fk_refs = rs\<rparr>"

subsection \<open>The raw-material models (core/db.py)\<close>

definition Material :: model where
  "Material = \<lparr>tablename = ''materials'',
     cols = [col ''material_id'' False UuidDefault,
             col ''material_code'' False NoDefault,
             col ''material_description'' False NoDefault],
     uniques = [[''material_id''], [''material_code'']],
     fkeys = []\<rparr>"

definition Plant :: model where
  "Plant = \<lparr>tablename = ''plants'',
     cols = [col ''plant_id'' False UuidDefault,
             col ''plant'' False NoDefault,
             col ''plant_name'' False NoDefault],
     uniques = [[''plant_id''], [''plant'']],
     fkeys = []\<rparr>"

definition Vendor :: model where
  "Vendor = \<lparr>tablename = ''vendors'',
     cols = [col ''vendor_id'' False UuidDefault,
             col ''vendor_code'' False NoDefault,
             col ''vendor_name'' False NoDefault],
     uniques = [[''vendor_id''], [''vendor_code'']],
     fkeys = []\<rparr>"

definition Sample :: model where
  "Sample = \<lparr>tablename = ''samples'',
     cols = [col ''sample_id'' False UuidDefault,
             col ''material_id'' False NoDefault,
             col ''plant_id'' False NoDefault,
             col ''vendor_id'' False NoDefault,
             col ''sample_no'' False NoDefault,
             col ''inspection_lot'' True NoDefault,
             col ''valuation_date'' False NoDefault,
             col ''batch_no'' True NoDefault,
             col ''material_doc'' True NoDefault,
             col ''created_at'' True NowDefault],
     uniques = [[''sample_id'']],
     fkeys = [fk [''material_id''] ''materials'' [''material_id''],
              fk [''plant_id''] ''plants'' [''plant_id''],
              fk [''vendor_id''] ''vendors'' [''vendor_id'']]\<rparr>"

definition AnalysisResult :: model where
  "AnalysisResult = \<lparr>tablename = ''analysis_results'',
     cols = [col ''result_id'' False UuidDefault,
             col ''sample_id'' False NoDefault,
             col ''analysis_parameter'' False NoDefault,
             col ''analysis_value'' True NoDefault,
             col ''valuation_date'' False NoDefault,
             col ''created_at'' True NowDefault],
     uniques = [[''result_id'']],
     fkeys = [fk [''sample_id''] ''samples'' [''sample_id'']]\<rparr>"

definition MaterialSource :: model where
  "MaterialSource = \<lparr>tablename = ''material_sources'',
     cols = [col ''source_id'' False UuidDefault,
             col ''sample_id'' False NoDefault,
             col ''plant_origin'' False NoDefault,
             col ''producer'' False NoDefault,
             col ''country'' False NoDefault,
             col ''original_batch'' True NoDefault,
             col ''valuation_date'' False NoDefault,
             col ''created_at'' True NowDefault],
     uniques = [[''source_id'']],
     fkeys = [fk [''sample_id''] ''samples'' [''sample_id'']]\<rparr>"

section \<open>The store behind a session\<close>

text \<open>
  The relational store is an external collaborator; what the loaders rely on is written
  out here. A table is the list of its rows; a query without ORDER BY returns them in
  this order. The session (autocommit off) works on \<open>pending\<close>, the view of its open
  transaction; \<open>commit\<close> publishes it, \<open>rollback\<close> discards it. \<open>next_uuid\<close> is the
  supply of \<open>uuid4()\<close>, which never repeats an identifier; \<open>now\<close> is the server clock.
\<close>

record world =
  committed :: "string \<Rightarrow> row list"
  pending :: "string \<Rightarrow> row list"
  next_uuid :: nat
  now :: nat

datatype error = IntegrityError | ProgrammingError | CompileError | KeyError | ReadError

definition commit :: "world \<Rightarrow> world" where
  "commit w = w\<lparr>committed := pending w\<rparr>"

definition rollback :: "world \<Rightarrow> world" where
  "rollback w = w\<lparr>pending := committed w\<rparr>"

definition query_all :: "world \<Rightarrow> model \<Rightarrow> row list" where
  "query_all w m = pending w (tablename m)"

text \<open>The row proposed for insertion: every column of the table, a column absent from
  the values taking its default.\<close>

definition proposed :: "model \<Rightarrow> world \<Rightarrow> row \<Rightarrow> row" where
  "proposed m w vals =
     map (\<lambda>c. (cname c,
            case map_of vals (cname c) of
              Some v \<Rightarrow> v
            | None \<Rightarrow> (case cdefault c of
                         NoDefault \<Rightarrow> CNull
                       | UuidDefault \<Rightarrow> CUuid (next_uuid w)
                       | NowDefault \<Rightarrow> CTime (now w))))
         (cols m)"

definition draws_uuid :: "model \<Rightarrow> row \<Rightarrow> bool" where
  "draws_uuid m vals =
     list_ex (\<lambda>c. cdefault c = UuidDefault \<and> map_of vals (cname c) = None) (cols m)"

definition not_null_ok :: "model \<Rightarrow> row \<Rightarrow> bool" where
  "not_null_ok m r = list_all (\<lambda>c. if nullable c then True else getc r (cname c) \<noteq> CNull) (cols m)"

definition key_of :: "string list \<Rightarrow> row \<Rightarrow> cell list" where
  "key_of ks r = map (getc r) ks"

text \<open>Two rows collide on a unique index when their keys are equal and hold no NULL.\<close>

definition conflicts :: "string list \<Rightarrow> row \<Rightarrow> row \<Rightarrow> bool" where
  "conflicts ks p r = (CNull \<notin> set (key_of ks p) \<and> key_of ks p = key_of ks r)"

definition violates_unique :: "model \<Rightarrow> row list \<Rightarrow> row \<Rightarrow> bool" where
  "violates_unique m rs p = list_ex (\<lambda>ks. list_ex (conflicts ks p) rs) (uniques m)"

definition fk_ok :: "(string \<Rightarrow> row list) \<Rightarrow> model \<Rightarrow> row \<Rightarrow> bool" where
  "fk_ok db m r =
     list_all (\<lambda>f. if CNull \<in> set (key_of (fk_cols f) r) then True
                   else list_ex (\<lambda>p. key_of (fk_refs f) p = key_of (fk_cols f) r) (db (fk_table f)))
       (fkeys m)"

text \<open>The conflict clause of a PostgreSQL INSERT: \<open>DoNothing\<close> is
  \<open>on_conflict_do_nothing()\<close>; \<open>DoUpdate idx cs\<close> is
  \<open>on_conflict_do_update(index_elements = idx, set_ = {c: excluded[c] for c in cs})\<close>.\<close>

datatype on_conflict = DoNothing | DoUpdate "string list" "string list"

definition store_row :: "model \<Rightarrow> row \<Rightarrow> world \<Rightarrow> error + world" where
  "store_row m p w =
     (let rs = pending w (tablename m) in
      if violates_unique m rs p then Inl IntegrityError
      else if \<not> fk_ok (pending w) m p then Inl IntegrityError
      else Inr (w\<lparr>pending := (pending w)(tablename m := rs @ [p])\<rparr>))"

definition update_row :: "model \<Rightarrow> row \<Rightarrow> string list \<Rightarrow> row \<Rightarrow> world \<Rightarrow> error + world" where
  "update_row m old set_cols p w =
     (let rs = pending w (tablename m);
          new = map (\<lambda>(c, v). (c, if c \<in> set set_cols then getc p c else v)) old
      in if \<not> not_null_ok m new then Inl IntegrityError
         else if violates_unique m (filter (\<lambda>r. r \<noteq> old) rs) new then Inl IntegrityError
         else if \<not> fk_ok (pending w) m new then Inl IntegrityError
         else Inr (w\<lparr>pending := (pending w)(tablename m := map (\<lambda>r. if r = old then new else r) rs)\<rparr>))"

text \<open>
  \<open>session.execute(insert(model).values(**vals) ...)\<close>. A value for a name that is no
  column is refused when the statement is compiled. The proposed row is checked against
  the NOT NULL columns before the conflict clause is considered. Without a conflict
  target any unique index arbitrates; with a target that index alone does, and a
  collision on another index is an error. An updated row keeps its place. The check of
  the rows that reference an updated key is left out: no statement of either loader
  updates a referenced column to a different value. Values are not checked against the
  declared column types.
\<close>

definition execute :: "model \<Rightarrow> row \<Rightarrow> on_conflict \<Rightarrow> world \<Rightarrow> error + world" where
  "execute m vals oc w =
     (let names = map cname (cols m);
          rs = pending w (tablename m);
          p = proposed m w vals;
          w1 = (if draws_uuid m vals then w\<lparr>next_uuid := Suc (next_uuid w)\<rparr> else w)
      in if \<not> list_all (\<lambda>k. k \<in> set names) (map fst vals) then Inl CompileError
         else if \<not> not_null_ok m p then Inl IntegrityError
         else (case oc of
                 DoNothing \<Rightarrow> if violates_unique m rs p then Inr w1 else store_row m p w1
               | DoUpdate idx set_cols \<Rightarrow>
                   if \<not> list_ex (\<lambda>u. set u = set idx) (uniques m) then Inl ProgrammingError
                   else if \<not> list_all (\<lambda>k. k \<in> set names) set_cols then Inl CompileError
                   else (case find (conflicts idx p) rs of
                           Some old \<Rightarrow> update_row m old set_cols p w1
                         | None \<Rightarrow> store_row m p w1)))"

section \<open>Raw-material loader: check_and_insert (core/db.py)\<close>

text \<open>The body of the \<open>try\<close>: filter the values to the model's columns, build the
  statement, execute and commit.\<close>

definition check_and_insert_try :: "model \<Rightarrow> row \<Rightarrow> row \<Rightarrow> bool \<Rightarrow> world \<Rightarrow> error + world" where
  "check_and_insert_try m filters vals update_on_conflict w =
     (let column_keys = map cname (cols m);
          filtered_values = filter (\<lambda>(k, v). k \<in> set column_keys) vals;
          stmt = (if update_on_conflict
                  then DoUpdate (map fst filters)
                         (filter (\<lambda>k. k \<notin> set (map fst filters)) (map fst filtered_values))
                  else DoNothing)
      in case execute m filtered_values stmt w of
           Inl e \<Rightarrow> Inl e
         | Inr w' \<Rightarrow> Inr (commit w'))"

text \<open>The whole function: the two handlers roll the session back, log and return. The
  result is the exception that leaves the function, if any, and the state.\<close>

definition check_and_insert :: "model \<Rightarrow> row \<Rightarrow> row \<Rightarrow> bool \<Rightarrow> world \<Rightarrow> error option \<times> world" where
  "check_and_insert m filters vals update_on_conflict w =
     (case check_and_insert_try m filters vals update_on_conflict w of
        Inr w' \<Rightarrow> (None, w')
      | Inl IntegrityError \<Rightarrow> (None, rollback w)
      | Inl e \<Rightarrow> (None, rollback w))"

section \<open>Raw-material loader: data frames and entity preparation (core/data_processing.py)\<close>

text \<open>
  A row of the cleaned raw-material table. Text columns hold text or nothing, the date
  column a day or nothing (NaT); \<open>analysis\<close> gives the cell of each analysis column,
  which may hold a number, nothing, or stray text. A frame knows which columns it has:
  selecting a column it lacks raises KeyError.
\<close>

record rm_row =
  sample_no :: "string option"
  material_code :: "string option"
  material_description :: "string option"
  plant :: "string option"
  plant_name :: "string option"
  vendor_code :: "string option"
  vendor_name :: "string option"
  inspection_lot :: "string option"
  batch_no :: "string option"
  material_doc :: "string option"
  valuation_date :: "nat option"
  producer :: "string option"
  country :: "string option"
  original_batch :: "string option"
  analysis :: "string \<Rightarrow> cell"

record rm_frame =
  columns :: "string list"
  rows :: "rm_row list"

definition has_columns :: "rm_frame \<Rightarrow> string list \<Rightarrow> bool" where
  "has_columns data cs = list_all (\<lambda>c. c \<in> set (columns data)) cs"

definition of_text :: "string option \<Rightarrow> cell" where
  "of_text s = (case s of None \<Rightarrow> CNull | Some t \<Rightarrow> CStr t)"

definition of_day :: "nat option \<Rightarrow> cell" where
  "of_day d = (case d of None \<Rightarrow> CNull | Some n \<Rightarrow> CDate n)"

text \<open>\<open>str(x)\<close> of a text-or-missing value, and of a value read from a String column.\<close>

definition py_str :: "string option \<Rightarrow> string" where
  "py_str s = (case s of None \<Rightarrow> ''None'' | Some t \<Rightarrow> t)"

definition str_of_cell :: "cell \<Rightarrow> string" where
  "str_of_cell v = (case v of CStr t \<Rightarrow> t | _ \<Rightarrow> ''None'')"

text \<open>\<open>data[cols].drop_duplicates()\<close>: the first row of every distinct projection
  \<open>f\<close>, in source order. The rows are kept whole; only the selected columns are read
  afterwards.\<close>

fun drop_duplicates_seen :: "('a \<Rightarrow> 'b) \<Rightarrow> 'b list \<Rightarrow> 'a list \<Rightarrow> 'a list" where
  "drop_duplicates_seen f seen [] = []"
| "drop_duplicates_seen f seen (x # xs) =
     (if f x \<in> set seen then drop_duplicates_seen f seen xs
      else x # drop_duplicates_seen f (f x # seen) xs)"

definition drop_duplicates :: "('a \<Rightarrow> 'b) \<Rightarrow> 'a list \<Rightarrow> 'a list" where
  "drop_duplicates f xs = drop_duplicates_seen f [] xs"

text \<open>The \<open>uuid4()\<close> calls of a list comprehension, one per element built.\<close>

definition with_uuids :: "nat \<Rightarrow> 'a list \<Rightarrow> (nat \<times> 'a) list" where
  "with_uuids n xs = zip [n ..< n + length xs] xs"

text \<open>A dict comprehension: a later pair replaces an earlier one with the same key.\<close>

definition dict_of :: "('k \<times> 'v) list \<Rightarrow> ('k \<rightharpoonup> 'v)" where
  "dict_of kvs = map_of (rev kvs)"

definition vars :: "row \<Rightarrow> row" where
  "vars obj = (''_sa_instance_state'', COpaque) # obj"

definition prepare_materials :: "rm_frame \<Rightarrow> nat \<Rightarrow> error + row list" where
  "prepare_materials data n =
     (if \<not> has_columns data [''material_code'', ''material_description''] then Inl KeyError
      else let materials = drop_duplicates (\<lambda>r. (material_code r, material_description r)) (rows data)
           in Inr (map (\<lambda>(u, r). [(''material_id'', CUuid u),
                                   (''material_code'', of_text (material_code r)),
                                   (''material_description'', of_text (material_description r))])
                     (with_uuids n materials)))"

definition prepare_plants :: "rm_frame \<Rightarrow> nat \<Rightarrow> error + row list" where
  "prepare_plants data n =
     (if \<not> has_columns data [''plant'', ''plant_name''] then Inl KeyError
      else let plants = drop_duplicates (\<lambda>r. (plant r, plant_name r)) (rows data)
           in Inr (map (\<lambda>(u, r). [(''plant_id'', CUuid u),
                                   (''plant'', of_text (plant r)),
                                   (''plant_name'', of_text (plant_name r))])
                     (with_uuids n plants)))"

definition prepare_vendors :: "rm_frame \<Rightarrow> nat \<Rightarrow> error + row list" where
  "prepare_vendors data n =
     (if \<not> has_columns data [''vendor_code'', ''vendor_name''] then Inl KeyError
      else let vendors = drop_duplicates (\<lambda>r. (vendor_code r, vendor_name r)) (rows data)
           in Inr (map (\<lambda>(u, r). [(''vendor_id'', CUuid u),
                                   (''vendor_code'', of_text (vendor_code r)),
                                   (''vendor_name'', of_text (vendor_name r))])
                     (with_uuids n vendors)))"

definition sample_resolved ::
  "(cell \<rightharpoonup> cell) \<Rightarrow> (cell \<rightharpoonup> cell) \<Rightarrow> (cell \<rightharpoonup> cell) \<Rightarrow> rm_row \<Rightarrow> bool" where
  "sample_resolved materials_map plants_map vendors_map r =
     (of_text (material_code r) \<in> dom materials_map \<and> of_text (plant r) \<in> dom plants_map
      \<and> of_text (vendor_code r) \<in> dom vendors_map)"

definition prepare_samples ::
  "rm_frame \<Rightarrow> (cell \<rightharpoonup> cell) \<Rightarrow> (cell \<rightharpoonup> cell) \<Rightarrow> (cell \<rightharpoonup> cell) \<Rightarrow> nat \<Rightarrow> error + row list" where
  "prepare_samples data materials_map plants_map vendors_map n =
     (if \<not> has_columns data [''sample_no'', ''material_code'', ''plant'', ''vendor_code'',
                               ''inspection_lot'', ''batch_no'', ''material_doc'', ''valuation_date'']
      then Inl KeyError
      else let samples = drop_duplicates
                 (\<lambda>r. (sample_no r, material_code r, plant r, vendor_code r,
                       inspection_lot r, batch_no r, material_doc r, valuation_date r)) (rows data)
           in Inr (map (\<lambda>(u, r). [(''sample_id'', CUuid u),
                                   (''material_id'', the (materials_map (of_text (material_code r)))),
                                   (''plant_id'', the (plants_map (of_text (plant r)))),
                                   (''vendor_id'', the (vendors_map (of_text (vendor_code r)))),
                                   (''sample_no'', CStr (py_str (sample_no r))),
                                   (''inspection_lot'', of_text (inspection_lot r)),
                                   (''batch_no'', of_text (batch_no r)),
                                   (''material_doc'', of_text (material_doc r)),
                                   (''valuation_date'', of_day (valuation_date r))])
                     (with_uuids n
                        (filter (sample_resolved materials_map plants_map vendors_map) samples))))"

definition analysis_columns :: "string list" where
  "analysis_columns =
     [''moisture'', ''ash'', ''protein'', ''fat'', ''fiber'', ''p'', ''ca'', ''insoluble'', ''nacl'',
      ''ffa'', ''ua'', ''kohps'', ''brix'', ''pepsin'', ''pepsin0002'', ''ndf'', ''adf'',
      ''adl'', ''eth'', ''t_fat'', ''tvn'', ''nh3'', ''starch'', ''iv'', ''pv'', ''av'',
      ''totox'', ''p_anisidine'', ''xanthophyll'', ''ac_insol'', ''gluten'', ''sulfer'', ''sulfate'']"

text \<open>A row of the long table: the two identifier columns, the parameter name and the
  value.\<close>

record long_row =
  l_sample_no :: "string option"
  l_date :: "nat option"
  analysis_parameter :: string
  analysis_value :: cell

text \<open>\<open>melt\<close>: one block of rows per value column, each block in source-row order.\<close>

definition melt :: "string list \<Rightarrow> rm_row list \<Rightarrow> long_row list" where
  "melt value_vars rs =
     concat (map (\<lambda>c. map (\<lambda>r. \<lparr>l_sample_no = sample_no r, l_date = valuation_date r,
                                  analysis_parameter = c, analysis_value = analysis r c\<rparr>) rs)
               value_vars)"

text \<open>\<open>pd.to_numeric(..., errors='coerce')\<close> on one cell. How pandas reads a text as a
  number is not part of this repository: \<open>parse\<close> stands for it.\<close>

definition to_numeric :: "(string \<Rightarrow> rat option) \<Rightarrow> cell \<Rightarrow> cell" where
  "to_numeric parse v =
     (case v of
        CNum q \<Rightarrow> CNum q
      | CStr t \<Rightarrow> (case parse t of Some q \<Rightarrow> CNum q | None \<Rightarrow> CNull)
      | _ \<Rightarrow> CNull)"

definition prepare_analysis_results ::
  "(string \<Rightarrow> rat option) \<Rightarrow> rm_frame \<Rightarrow> (string \<rightharpoonup> cell) \<Rightarrow> nat \<Rightarrow> error + row list" where
  "prepare_analysis_results parse data samples_map n =
     (if \<not> has_columns data ([''sample_no'', ''valuation_date''] @ analysis_columns) then Inl KeyError
      else let melted = melt analysis_columns (rows data);
               data_filtered = filter (\<lambda>l. analysis_value l \<noteq> CNull \<and> l_sample_no l \<noteq> None) melted;
               numeric = map (\<lambda>l. l\<lparr>analysis_value := to_numeric parse (analysis_value l)\<rparr>) data_filtered;
               data_filtered2 = filter (\<lambda>l. analysis_value l \<noteq> CNull) numeric
           in Inr (map (\<lambda>(u, l). [(''result_id'', CUuid u),
                                   (''sample_id'', the (samples_map (py_str (l_sample_no l)))),
                                   (''analysis_parameter'', CStr (analysis_parameter l)),
                                   (''analysis_value'', analysis_value l),
                                   (''valuation_date'', of_day (l_date l))])
                     (with_uuids n
                        (filter (\<lambda>l. py_str (l_sample_no l) \<in> dom samples_map) data_filtered2))))"

definition prepare_material_sources ::
  "rm_frame \<Rightarrow> (string \<rightharpoonup> cell) \<Rightarrow> nat \<Rightarrow> error + row list" where
  "prepare_material_sources data samples_map n =
     (if \<not> has_columns data [''sample_no'', ''valuation_date'', ''plant_name'', ''producer'',
                               ''country'', ''original_batch'']
      then Inl KeyError
      else let deduplicated = drop_duplicates
                 (\<lambda>r. (sample_no r, valuation_date r, plant_name r, producer r, country r,
                       original_batch r)) (rows data);
               provenance = filter (\<lambda>r. \<not> (plant_name r = None \<and> producer r = None
                                            \<and> country r = None \<and> original_batch r = None)) deduplicated;
               material_sources = filter (\<lambda>r. sample_no r \<noteq> None \<and> valuation_date r \<noteq> None) provenance
           in Inr (map (\<lambda>(u, r). [(''source_id'', CUuid u),
                                   (''sample_id'', the (samples_map (py_str (sample_no r)))),
                                   (''plant_origin'', of_text (plant_name r)),
                                   (''producer'', of_text (producer r)),
                                   (''country'', of_text (country r)),
                                   (''original_batch'', of_text (original_batch r)),
                                   (''valuation_date'', of_day (valuation_date r))])
                     (with_uuids n
                        (filter (\<lambda>r. py_str (sample_no r) \<in> dom samples_map) material_sources))))"

section \<open>Raw-material loader: insert_to_db and the watcher (core/data_processing.py, app/main.py)\<close>

text \<open>A step of the loader returns the exception that leaves it, if any, and the state
  at that moment. \<open>and_then\<close> runs the next step unless an exception is under way.\<close>

definition and_then ::
  "error option \<times> world \<Rightarrow> (world \<Rightarrow> error option \<times> world) \<Rightarrow> error option \<times> world" where
  "and_then r f = (case r of (Some e, w) \<Rightarrow> (Some e, w) | (None, w) \<Rightarrow> f w)"

text \<open>\<open>for x in xs: check_and_insert(session, model, filters(x), vars(x))\<close>, the flag
  \<open>update_on_conflict\<close> left at its default.\<close>

fun insert_each :: "model \<Rightarrow> (row \<Rightarrow> row) \<Rightarrow> row list \<Rightarrow> world \<Rightarrow> error option \<times> world" where
  "insert_each m filters_of [] w = (None, w)"
| "insert_each m filters_of (x # xs) w =
     and_then (check_and_insert m (filters_of x) (vars x) False w) (insert_each m filters_of xs)"

text \<open>A phase: prepare the entities (drawing their identifiers), then write each.\<close>

definition phase ::
  "model \<Rightarrow> (row \<Rightarrow> row) \<Rightarrow> (nat \<Rightarrow> error + row list) \<Rightarrow> world \<Rightarrow> error option \<times> world" where
  "phase m filters_of prepare w =
     (case prepare (next_uuid w) of
        Inl e \<Rightarrow> (Some e, w)
      | Inr xs \<Rightarrow> insert_each m filters_of xs (w\<lparr>next_uuid := next_uuid w + length xs\<rparr>))"

definition by_columns :: "string list \<Rightarrow> row \<Rightarrow> row" where
  "by_columns cs x = map (\<lambda>c. (c, getc x c)) cs"

definition code_map :: "world \<Rightarrow> model \<Rightarrow> string \<Rightarrow> string \<Rightarrow> (cell \<rightharpoonup> cell)" where
  "code_map w m key ident = dict_of (map (\<lambda>r. (getc r key, getc r ident)) (query_all w m))"

definition samples_map_of :: "world \<Rightarrow> (string \<rightharpoonup> cell)" where
  "samples_map_of w =
     dict_of (map (\<lambda>s. (str_of_cell (getc s ''sample_no''), getc s ''sample_id'')) (query_all w Sample))"

text \<open>The body of the \<open>try\<close> of \<open>insert_to_db\<close>: the three dimension phases, the
  mappings read back from the store, the sample phase, the samples mapping, the two
  remaining fact phases and the final commit. Log lines, the warning about sample numbers
  missing from the mapping and the row counts queried for the log change nothing and are
  left out.\<close>

definition insert_to_db_try ::
  "(string \<Rightarrow> rat option) \<Rightarrow> rm_frame \<Rightarrow> world \<Rightarrow> error option \<times> world" where
  "insert_to_db_try parse data w0 =
     and_then (phase Material (by_columns [''material_code'']) (prepare_materials data) w0) (\<lambda>w1.
     and_then (phase Plant (by_columns [''plant'']) (prepare_plants data) w1) (\<lambda>w2.
     and_then (phase Vendor (by_columns [''vendor_code'']) (prepare_vendors data) w2) (\<lambda>w3.
       let materials_map = code_map w3 Material ''material_code'' ''material_id'';
           plants_map = code_map w3 Plant ''plant'' ''plant_id'';
           vendors_map = code_map w3 Vendor ''vendor_code'' ''vendor_id''
       in
     and_then (phase Sample (by_columns [''sample_no'', ''valuation_date''])
                 (prepare_samples data materials_map plants_map vendors_map) w3) (\<lambda>w4.
       let samples_map = samples_map_of w4 in
     and_then (phase AnalysisResult (by_columns [''result_id''])
                 (prepare_analysis_results parse data samples_map) w4) (\<lambda>w5.
     and_then (phase MaterialSource (by_columns [''source_id''])
                 (prepare_material_sources data samples_map) w5) (\<lambda>w6.
       (None, commit w6)))))))"

text \<open>The handler of \<open>insert_to_db\<close>: roll back and raise again.\<close>

definition insert_to_db ::
  "(string \<Rightarrow> rat option) \<Rightarrow> rm_frame \<Rightarrow> world \<Rightarrow> error option \<times> world" where
  "insert_to_db parse data w =
     (case insert_to_db_try parse data w of
        (Some e, w') \<Rightarrow> (Some e, rollback w')
      | (None, w') \<Rightarrow> (None, w'))"

text \<open>The watched folder and the folder of finished files hold files by name; a file is
  a readable parquet table or not.\<close>

datatype stored_file = Unreadable | Parquet rm_frame

record folders =
  raw_data :: "string \<rightharpoonup> stored_file"
  upload_complete :: "string \<rightharpoonup> stored_file"

definition endswith :: "string \<Rightarrow> string \<Rightarrow> bool" where
  "endswith s suf = (length suf \<le> length s \<and> drop (length s - length suf) s = suf)"

definition load_data :: "folders \<Rightarrow> string \<Rightarrow> error + rm_frame" where
  "load_data fs name =
     (case raw_data fs name of
        Some (Parquet data) \<Rightarrow> Inr data
      | _ \<Rightarrow> Inl ReadError)"

definition move_to_complete :: "folders \<Rightarrow> string \<Rightarrow> folders" where
  "move_to_complete fs name =
     fs\<lparr>raw_data := (raw_data fs)(name := None),
        upload_complete := (upload_complete fs)(name := raw_data fs name)\<rparr>"

text \<open>\<open>RawDataWatcherHandler.on_created\<close>: load, insert, move; any exception is logged
  and the handler returns.\<close>

definition on_created ::
  "(string \<Rightarrow> rat option) \<Rightarrow> bool \<Rightarrow> string \<Rightarrow> world \<times> folders \<Rightarrow> world \<times> folders" where
  "on_created parse is_directory name st =
     (case st of (w, fs) \<Rightarrow>
        if is_directory then st
        else if endswith name ''.parquet'' then
          (case load_data fs name of
             Inl e \<Rightarrow> st
           | Inr data \<Rightarrow>
               (case insert_to_db parse data w of
                  (Some e, w') \<Rightarrow> (w', fs)
                | (None, w') \<Rightarrow> (w', move_to_complete fs name)))
        else st)"

section \<open>Finished-product loader: models and upserts (app/models/fp_anaysis_model.py)\<close>

text \<open>The finished-product store is a database of its own; its classes Material, Plants,
  Formula, Samples and AnalysisResults are declared here. \<open>material_old_code\<close> is
  declared \<open>unique=False\<close>. The second assignment of \<open>__table_args__\<close> in
  AnalysisResults is the one in force.\<close>

definition Material_fp :: model where
  "Material_fp = \<lparr>tablename = ''materials'',
     cols = [col ''material_id'' False UuidDefault,
             col ''material_code'' False NoDefault,
             col ''material_description'' False NoDefault,
             col ''material_old_code'' True NoDefault],
     uniques = [[''material_id''], [''material_code'']],
     fkeys = []\<rparr>"

definition Plants :: model where
  "Plants = \<lparr>tablename = ''plants'',
     cols = [col ''plant_id'' False UuidDefault,
             col ''plant'' False NoDefault,
             col ''plant_name'' False NoDefault],
     uniques = [[''plant_id''], [''plant'']],
     fkeys = []\<rparr>"

definition Formula :: model where
  "Formula = \<lparr>tablename = ''formula'',
     cols = [col ''formula_id'' False UuidDefault,
             col ''formula_name'' False NoDefault],
     uniques = [[''formula_id''], [''formula_name'']],
     fkeys = []\<rparr>"

definition Samples :: model where
  "Samples = \<lparr>tablename = ''samples'',
     cols = [col ''sample_id'' False UuidDefault,
             col ''material_id'' False NoDefault,
             col ''plant_id'' False NoDefault,
             col ''formula_id'' False NoDefault,
             col ''sample_no'' False NoDefault,
             col ''inspection_lot'' True NoDefault,
             col ''truck_no'' True NoDefault,
             col ''pallet_no'' True NoDefault,
             col ''batch_no'' True NoDefault,
             col ''manufacturing_date'' False NoDefault,
             col ''bin_no'' True NoDefault,
             col ''load_time'' False NoDefault,
             col ''validation_code'' True NoDefault,
             col ''remark'' True NoDefault,
             col ''created_at'' True NowDefault],
     uniques = [[''sample_id'', ''manufacturing_date'']],
     fkeys = []\<rparr>"

definition AnalysisResults :: model where
  "AnalysisResults = \<lparr>tablename = ''analysis_results'',
     cols = [col ''result_id'' False UuidDefault,
             col ''sample_id'' False NoDefault,
             col ''manufacturing_date'' False NoDefault,
             col ''analysis_parameter'' False NoDefault,
             col ''analysis_value'' True NoDefault,
             col ''created_at'' True NowDefault],
     uniques = [[''result_id''], [''sample_id'', ''analysis_parameter'', ''manufacturing_date'']],
     fkeys = [fk [''sample_id'', ''manufacturing_date''] ''samples''
                 [''sample_id'', ''manufacturing_date'']]\<rparr>"

text \<open>The shape shared by the five \<open>upsert\<close> class methods: insert the keyword
  arguments; on a conflict on \<open>index_elements\<close> set every column of the table but the
  \<open>kept\<close> ones to the proposed value; execute; commit. Nothing is caught here.\<close>

definition upsert_on :: "model \<Rightarrow> string list \<Rightarrow> string list \<Rightarrow> row \<Rightarrow> world \<Rightarrow> error + world" where
  "upsert_on m index_elements kept kwargs w =
     (let update_dict = filter (\<lambda>c. c \<notin> set kept) (map cname (cols m))
      in case execute m kwargs (DoUpdate index_elements update_dict) w of
           Inl e \<Rightarrow> Inl e
         | Inr w' \<Rightarrow> Inr (commit w'))"

text \<open>The truth value of \<open>kwargs.get(key)\<close>.\<close>

definition truthy :: "cell option \<Rightarrow> bool" where
  "truthy v = (case v of
                 None \<Rightarrow> False
               | Some CNull \<Rightarrow> False
               | Some (CStr t) \<Rightarrow> t \<noteq> []
               | Some (CNum q) \<Rightarrow> q \<noteq> 0
               | Some _ \<Rightarrow> True)"

definition pop :: "string \<Rightarrow> row \<Rightarrow> row" where
  "pop key kwargs = filter (\<lambda>(k, v). k \<noteq> key) kwargs"

definition Material_upsert :: "row \<Rightarrow> world \<Rightarrow> error + world" where
  "Material_upsert kwargs w =
     (let m_old = map_of kwargs ''material_old_code'';
          m_code = map_of kwargs ''material_code'';
          kwargs' =
            (if truthy m_old then
               (case find (\<lambda>r. Some (getc r ''material_old_code'') = m_old) (query_all w Material_fp) of
                  Some existing \<Rightarrow>
                    if Some (getc existing ''material_code'') \<noteq> m_code
                    then pop ''material_old_code'' kwargs else kwargs
                | None \<Rightarrow> kwargs)
             else kwargs)
      in upsert_on Material_fp [''material_code''] [''material_id'', ''material_old_code''] kwargs' w)"

definition Plants_upsert :: "row \<Rightarrow> world \<Rightarrow> error + world" where
  "Plants_upsert kwargs w = upsert_on Plants [''plant''] [''plant_id''] kwargs w"

definition Formula_upsert :: "row \<Rightarrow> world \<Rightarrow> error + world" where
  "Formula_upsert kwargs w = upsert_on Formula [''formula_name''] [''formula_id''] kwargs w"

definition Samples_upsert :: "row \<Rightarrow> world \<Rightarrow> error + world" where
  "Samples_upsert kwargs w =
     upsert_on Samples [''sample_id'', ''manufacturing_date'']
       [''sample_id'', ''manufacturing_date'', ''created_at''] kwargs w"

definition AnalysisResults_upsert :: "row \<Rightarrow> world \<Rightarrow> error + world" where
  "AnalysisResults_upsert kwargs w =
     upsert_on AnalysisResults [''sample_id'', ''analysis_parameter'', ''manufacturing_date'']
       [''result_id'', ''created_at''] kwargs w"

section \<open>Finished-product loader: writing and reshaping (app/services/data_processing.py)\<close>

definition to_clean_dict :: "model \<Rightarrow> row \<Rightarrow> row" where
  "to_clean_dict m inst =
     (let data = map (\<lambda>c. (cname c, getc inst (cname c))) (cols m)
      in if getc data ''created_at'' = CNull then pop ''created_at'' data else data)"

text \<open>\<open>check_and_insert\<close> of the finished-product loader: the model's upsert is called
  and an exception is logged and raised again (\<open>unique_filter\<close> only appears in the log
  line). A failed statement leaves nothing in the session.\<close>

definition check_and_insert_fp ::
  "(row \<Rightarrow> world \<Rightarrow> error + world) \<Rightarrow> model \<Rightarrow> row \<Rightarrow> world \<Rightarrow> error option \<times> world" where
  "check_and_insert_fp upsert m data_obj w =
     (case upsert (to_clean_dict m data_obj) w of
        Inl e \<Rightarrow> (Some e, w)
      | Inr w' \<Rightarrow> (None, w'))"

text \<open>\<open>for x in xs: check_and_insert(session, Model, ..., x)\<close> inside \<open>update_to_db\<close>,
  and the handler around the loops: roll back and raise again.\<close>

fun upsert_each ::
  "(row \<Rightarrow> world \<Rightarrow> error + world) \<Rightarrow> model \<Rightarrow> row list \<Rightarrow> world \<Rightarrow> error option \<times> world" where
  "upsert_each upsert m [] w = (None, w)"
| "upsert_each upsert m (x # xs) w =
     and_then (check_and_insert_fp upsert m x w) (upsert_each upsert m xs)"

definition handled :: "error option \<times> world \<Rightarrow> error option \<times> world" where
  "handled r = (case r of (Some e, w) \<Rightarrow> (Some e, rollback w) | (None, w) \<Rightarrow> (None, w))"

text \<open>The columns of the cleaned finished-product table that
  \<open>prepare_analysis_results\<close> reads.\<close>

record fp_row =
  fp_sample_no :: "string option"
  manufacturing_date :: "nat option"
  numeric :: "string \<Rightarrow> cell"

record fp_frame =
  fp_columns :: "string list"
  fp_rows :: "fp_row list"

definition numeric_cols :: "string list" where
  "numeric_cols =
     [''excptcp'', ''min_cp'', ''diff_cp'', ''diff_min'', ''moisture'', ''ash'', ''protein'', ''fat'',
      ''fiber'', ''p'', ''ca'', ''insoluble'', ''nacl'', ''na'', ''k'', ''fines'', ''durability'',
      ''t_fat'', ''bulk_density'', ''aw'', ''starch'', ''cook'', ''l_star'', ''a_star'', ''b_star'',
      ''hardness'', ''adf'', ''adl'', ''ndf'']"

definition fp_melt :: "string list \<Rightarrow> fp_row list \<Rightarrow> long_row list" where
  "fp_melt value_vars rs =
     concat (map (\<lambda>c. map (\<lambda>r. \<lparr>l_sample_no = fp_sample_no r, l_date = manufacturing_date r,
                                  analysis_parameter = c, analysis_value = numeric r c\<rparr>) rs)
               value_vars)"

definition prepare_analysis_results_fp ::
  "(string \<Rightarrow> rat option) \<Rightarrow> fp_frame \<Rightarrow> (string \<rightharpoonup> cell) \<Rightarrow> nat \<Rightarrow> error + row list" where
  "prepare_analysis_results_fp parse data samples_map n =
     (if \<not> list_all (\<lambda>c. c \<in> set (fp_columns data)) ([''sample_no'', ''manufacturing_date''] @ numeric_cols)
      then Inl KeyError
      else let melted = fp_melt numeric_cols (fp_rows data);
               data_filtered = filter (\<lambda>l. analysis_value l \<noteq> CNull \<and> l_sample_no l \<noteq> None
                                           \<and> l_date l \<noteq> None) melted;
               numeric = map (\<lambda>l. l\<lparr>analysis_value := to_numeric parse (analysis_value l)\<rparr>) data_filtered;
               data_filtered2 = filter (\<lambda>l. analysis_value l \<noteq> CNull) numeric
           in Inr (map (\<lambda>(u, l). [(''result_id'', CUuid u),
                                   (''sample_id'', the (samples_map (py_str (l_sample_no l)))),
                                   (''manufacturing_date'', of_day (l_date l)),
                                   (''analysis_parameter'', CStr (analysis_parameter l)),
                                   (''analysis_value'', analysis_value l)])
                     (with_uuids n
                        (filter (\<lambda>l. py_str (l_sample_no l) \<in> dom samples_map) data_filtered2))))"

definition samples_map_fp :: "world \<Rightarrow> (string \<rightharpoonup> cell)" where
  "samples_map_fp w =
     dict_of (map (\<lambda>s. (str_of_cell (getc s ''sample_no''), getc s ''sample_id'')) (query_all w Samples))"

section \<open>Numeric normalisation (app/services/data_cleansing.py, core/clean_data.py)\<close>









section \<open>Example inputs\<close>

text \<open>The canonical columns of the cleaned raw-material table.\<close>

definition rm_columns :: "string list" where
  "rm_columns =
     [''sample_no'', ''material_code'', ''material_description'', ''plant'', ''plant_name'',
      ''vendor_code'', ''vendor_name'', ''inspection_lot'', ''batch_no'', ''material_doc'',
      ''valuation_date'', ''producer'', ''country'', ''original_batch''] @ analysis_columns"

definition empty_world :: world where
  "empty_world = \<lparr>committed = (\<lambda>_. []), pending = (\<lambda>_. []), next_uuid = 0, now = 0\<rparr>"

definition no_parse :: "string \<Rightarrow> rat option" where
  "no_parse = (\<lambda>_. None)"

text \<open>A complete row: sample S1 of material M1 on day 100, moisture 5.\<close>

definition row_s1 :: rm_row where
  "row_s1 = \<lparr>sample_no = Some ''S1'', material_code = Some ''M1'',
      material_description = Some ''Corn'', plant = Some ''P1'', plant_name = Some ''Plant one'',
      vendor_code = Some ''V1'', vendor_name = Some ''Vendor one'', inspection_lot = None,
      batch_no = None, material_doc = None, valuation_date = Some 100, producer = None,
      country = None, original_batch = None,
      analysis = (\<lambda>c. if c = ''moisture'' then CNum 5 else CNull)\<rparr>"

text \<open>The same row with no material description: the Material write violates NOT NULL.\<close>

definition frame_undescribed :: rm_frame where
  "frame_undescribed = \<lparr>columns = rm_columns, rows = [row_s1\<lparr>material_description := None\<rparr>]\<rparr>"

text \<open>Two Material entities of one phase: the second has no description.\<close>

definition material_m1 :: row where
  "material_m1 = [(''material_id'', CUuid 0), (''material_code'', CStr ''M1''),
                  (''material_description'', CStr ''Corn'')]"

definition material_m2_undescribed :: row where
  "material_m2_undescribed = [(''material_id'', CUuid 1), (''material_code'', CStr ''M2''),
                              (''material_description'', CNull)]"

text \<open>A raw-material store that holds material M1, and the same material code arriving
  again with another description.\<close>

definition world_m1 :: world where
  "world_m1 = \<lparr>committed = (\<lambda>_. [])(''materials'' := [material_m1]),
                pending = (\<lambda>_. [])(''materials'' := [material_m1]),
                next_uuid = 1, now = 0\<rparr>"

definition material_m1_renamed :: row where
  "material_m1_renamed = [(''material_id'', CUuid 7), (''material_code'', CStr ''M1''),
                          (''material_description'', CStr ''Maize'')]"

text \<open>A finished-product store that holds plant P1, and the same plant code arriving again
  with another name.\<close>

definition plant_p1 :: row where
  "plant_p1 = [(''plant_id'', CUuid 0), (''plant'', CStr ''P1''),
               (''plant_name'', CStr ''Plant one'')]"

definition world_p1 :: world where
  "world_p1 = \<lparr>committed = (\<lambda>_. [])(''plants'' := [plant_p1]),
                pending = (\<lambda>_. [])(''plants'' := [plant_p1]),
                next_uuid = 1, now = 0\<rparr>"

definition plant_p1_renamed :: row where
  "plant_p1_renamed = [(''plant_id'', CUuid 7), (''plant'', CStr ''P1''),
                       (''plant_name'', CStr ''North mill'')]"

text \<open>Finished-product stores: material M1 with old code OLD-1 alone, and together with a
  stored material M2 whose old code is OLD-2; and the keyword arguments of an upsert of
  M2 that carries M1's old code.\<close>

definition material_a :: row where
  "material_a = [(''material_id'', CUuid 0), (''material_code'', CStr ''M1''),
                 (''material_description'', CStr ''Corn''),
                 (''material_old_code'', CStr ''OLD-1'')]"

definition material_b_stored :: row where
  "material_b_stored = [(''material_id'', CUuid 1), (''material_code'', CStr ''M2''),
                        (''material_description'', CStr ''Soy meal''),
                        (''material_old_code'', CStr ''OLD-2'')]"

definition world_a :: world where
  "world_a = \<lparr>committed = (\<lambda>_. [])(''materials'' := [material_a]),
               pending = (\<lambda>_. [])(''materials'' := [material_a]),
               next_uuid = 1, now = 0\<rparr>"

definition world_ab :: world where
  "world_ab = \<lparr>committed = (\<lambda>_. [])(''materials'' := [material_a, material_b_stored]),
                pending = (\<lambda>_. [])(''materials'' := [material_a, material_b_stored]),
                next_uuid = 2, now = 0\<rparr>"

definition kwargs_b :: row where
  "kwargs_b = [(''material_id'', CUuid 7), (''material_code'', CStr ''M2''),
               (''material_description'', CStr ''Soy''),
               (''material_old_code'', CStr ''OLD-1'')]"

text \<open>A later file that lists sample S1 of day 100 again, now under material M2, which has
  no description and cannot be stored, with moisture 7.\<close>

definition frame_relisted :: rm_frame where
  "frame_relisted =
     \<lparr>columns = rm_columns,
      rows = [row_s1\<lparr>material_code := Some ''M2'', material_description := None,
                     analysis := (\<lambda>c. if c = ''moisture'' then CNum 7 else CNull)\<rparr>]\<rparr>"

text \<open>A one-row batch; a row whose ash cell holds a text that is no number; and a row of
  the finished-product table with the same defect.\<close>

definition frame_s1 :: rm_frame where
  "frame_s1 = \<lparr>columns = rm_columns, rows = [row_s1]\<rparr>"





text \<open>A batch in which sample number S1 recurs: day 100 with moisture 5 and day 200 with
  moisture 7, same material, plant and vendor.\<close>

definition row_s1_later :: rm_row where
  "row_s1_later = row_s1\<lparr>valuation_date := Some 200,
                          analysis := (\<lambda>c. if c = ''moisture'' then CNum 7 else CNull)\<rparr>"

definition frame_recurring :: rm_frame where
  "frame_recurring = \<lparr>columns = rm_columns, rows = [row_s1, row_s1_later]\<rparr>"

text \<open>A file whose only row has no valuation date (NaT), waiting in the watched folder; and
  the Sample entity the loader builds from that row.\<close>

definition frame_undated :: rm_frame where
  "frame_undated = \<lparr>columns = rm_columns, rows = [row_s1\<lparr>valuation_date := None\<rparr>]\<rparr>"

definition folders_lab :: folders where
  "folders_lab = \<lparr>raw_data = [''lab.parquet'' \<mapsto> Parquet frame_undated],
                   upload_complete = Map.empty\<rparr>"

definition sample_undated :: row where
  "sample_undated =
     [(''sample_id'', CUuid 3), (''material_id'', CUuid 0), (''plant_id'', CUuid 1),
      (''vendor_id'', CUuid 2), (''sample_no'', CStr ''S1''), (''inspection_lot'', CNull),
      (''batch_no'', CNull), (''material_doc'', CNull), (''valuation_date'', CNull)]"


text \<open>A finished-product store that holds sample F1 of day 100, and the entity the loader
  builds for the same sample on a later run: equal in every column but the fresh
  \<open>sample_id\<close>.\<close>

definition fp_sample_stored :: row where
  "fp_sample_stored =
     [(''sample_id'', CUuid 0), (''material_id'', CUuid 1), (''plant_id'', CUuid 2),
      (''formula_id'', CUuid 3), (''sample_no'', CStr ''F1''), (''inspection_lot'', CStr ''''),
      (''truck_no'', CStr ''''), (''pallet_no'', CStr ''''), (''batch_no'', CStr ''''),
      (''manufacturing_date'', CDate 100), (''bin_no'', CStr ''''), (''load_time'', CTime 7),
      (''validation_code'', CStr ''''), (''remark'', CStr ''''), (''created_at'', CTime 0)]"

definition world_f1 :: world where
  "world_f1 = \<lparr>committed = (\<lambda>_. [])(''samples'' := [fp_sample_stored]),
                pending = (\<lambda>_. [])(''samples'' := [fp_sample_stored]),
                next_uuid = 6, now = 1\<rparr>"

definition fp_sample_again :: row where
  "fp_sample_again =
     [(''sample_id'', CUuid 5), (''material_id'', CUuid 1), (''plant_id'', CUuid 2),
      (''formula_id'', CUuid 3), (''sample_no'', CStr ''F1''), (''inspection_lot'', CStr ''''),
      (''truck_no'', CStr ''''), (''pallet_no'', CStr ''''), (''batch_no'', CStr ''''),
      (''manufacturing_date'', CDate 100), (''bin_no'', CStr ''''), (''load_time'', CTime 7),
      (''validation_code'', CStr ''''), (''remark'', CStr '''')]"

text \<open>A finished-product store in which sample number F1 is stored for day 100 and for day
  200, and a table with one protein value for each of the two days.\<close>

definition fp_sample_day200 :: row where
  "fp_sample_day200 =
     [(''sample_id'', CUuid 4), (''material_id'', CUuid 1), (''plant_id'', CUuid 2),
      (''formula_id'', CUuid 3), (''sample_no'', CStr ''F1''), (''inspection_lot'', CStr ''''),
      (''truck_no'', CStr ''''), (''pallet_no'', CStr ''''), (''batch_no'', CStr ''''),
      (''manufacturing_date'', CDate 200), (''bin_no'', CStr ''''), (''load_time'', CTime 8),
      (''validation_code'', CStr ''''), (''remark'', CStr ''''), (''created_at'', CTime 0)]"

definition world_f2 :: world where
  "world_f2 = \<lparr>committed = (\<lambda>_. [])(''samples'' := [fp_sample_stored, fp_sample_day200]),
                pending = (\<lambda>_. [])(''samples'' := [fp_sample_stored, fp_sample_day200]),
                next_uuid = 5, now = 1\<rparr>"

definition fp_frame_recurring :: fp_frame where
  "fp_frame_recurring =
     \<lparr>fp_columns = [''sample_no'', ''manufacturing_date''] @ numeric_cols,
      fp_rows = [\<lparr>fp_sample_no = Some ''F1'', manufacturing_date = Some 100,
                  numeric = (\<lambda>c. if c = ''protein'' then CNum 18 else CNull)\<rparr>,
                 \<lparr>fp_sample_no = Some ''F1'', manufacturing_date = Some 200,
                  numeric = (\<lambda>c. if c = ''protein'' then CNum 19 else CNull)\<rparr>]\<rparr>"

text \<open>A batch of three rows with three sample numbers; the middle one names material M2,
  which has no description and cannot be stored.\<close>

definition row_s2_unregistered :: rm_row where
  "row_s2_unregistered =
     row_s1\<lparr>sample_no := Some ''S2'', material_code := Some ''M2'', material_description := None,
            analysis := (\<lambda>c. if c = ''moisture'' then CNum 7 else CNull)\<rparr>"

definition row_s3 :: rm_row where
  "row_s3 = row_s1\<lparr>sample_no := Some ''S3'',
                    analysis := (\<lambda>c. if c = ''moisture'' then CNum 9 else CNull)\<rparr>"

definition frame_three :: rm_frame where
  "frame_three = \<lparr>columns = rm_columns, rows = [row_s1, row_s2_unregistered, row_s3]\<rparr>"

text \<open>The keyword arguments of an upsert of the stored material M2 that carries an old code
  nobody has claimed.\<close>

definition kwargs_b_recoded :: row where
  "kwargs_b_recoded = [(''material_id'', CUuid 7), (''material_code'', CStr ''M2''),
                       (''material_description'', CStr ''Soy''),
                       (''material_old_code'', CStr ''OLD-9'')]"

text \<open>A finished-product store that holds formula X1, and the same formula name arriving
  again.\<close>

definition formula_x1 :: row where
  "formula_x1 = [(''formula_id'', CUuid 0), (''formula_name'', CStr ''X1'')]"

definition world_x1 :: world where
  "world_x1 = \<lparr>committed = (\<lambda>_. [])(''formula'' := [formula_x1]),
                pending = (\<lambda>_. [])(''formula'' := [formula_x1]),
                next_uuid = 1, now = 0\<rparr>"

definition formula_x1_again :: row where
  "formula_x1_again = [(''formula_id'', CUuid 9), (''formula_name'', CStr ''X1'')]"

text \<open>The stored finished-product sample F1 of day 100 arriving again under its stored
  \<open>sample_id\<close>, with another load time and a remark.\<close>

definition fp_sample_revised :: row where
  "fp_sample_revised =
     [(''sample_id'', CUuid 0), (''material_id'', CUuid 1), (''plant_id'', CUuid 2),
      (''formula_id'', CUuid 3), (''sample_no'', CStr ''F1''), (''inspection_lot'', CStr ''''),
      (''truck_no'', CStr ''''), (''pallet_no'', CStr ''''), (''batch_no'', CStr ''''),
      (''manufacturing_date'', CDate 100), (''bin_no'', CStr ''''), (''load_time'', CTime 9),
      (''validation_code'', CStr ''''), (''remark'', CStr ''retest'')]"

text \<open>A finished-product store that holds sample F1 of day 100 with a protein result of 12,
  and the same result arriving again with the value 13.\<close>

definition result_r1 :: row where
  "result_r1 = [(''result_id'', CUuid 8), (''sample_id'', CUuid 0),
                (''manufacturing_date'', CDate 100), (''analysis_parameter'', CStr ''protein''),
                (''analysis_value'', CNum 12), (''created_at'', CTime 0)]"

definition world_r1 :: world where
  "world_r1 = \<lparr>committed = (\<lambda>_. [])(''samples'' := [fp_sample_stored],
                                            ''analysis_results'' := [result_r1]),
                pending = (\<lambda>_. [])(''samples'' := [fp_sample_stored],
                                          ''analysis_results'' := [result_r1]),
                next_uuid = 9, now = 1\<rparr>"

definition result_r1_revised :: row where
  "result_r1_revised = [(''result_id'', CUuid 9), (''sample_id'', CUuid 0),
                        (''manufacturing_date'', CDate 100),
                        (''analysis_parameter'', CStr ''protein''),
                        (''analysis_value'', CNum 13)]"

text \<open>A third material, complete, listed after the undescribed one.\<close>

definition material_m3 :: row where
  "material_m3 = [(''material_id'', CUuid 2), (''material_code'', CStr ''M3''),
                  (''material_description'', CStr ''Wheat'')]"

section \<open>Facts about the store and check_and_insert\<close>

lemma check_and_insert_returns:
  "fst (check_and_insert m filters vals u w) = None"
  unfolding check_and_insert_def
  by (auto split: sum.splits error.splits)

lemma check_and_insert_failed:
  "check_and_insert_try m filters vals u w = Inl e \<Longrightarrow>
   check_and_insert m filters vals u w = (None, rollback w)"
  unfolding check_and_insert_def
  by (auto split: sum.splits error.splits)

lemma insert_each_returns: "fst (insert_each m f xs w) = None"
proof (induction xs arbitrary: w)
  case Nil
  show ?case by simp
next
  case (Cons x xs)
  obtain w' where "check_and_insert m (f x) (vars x) False w = (None, w')"
    using check_and_insert_returns [of m "f x" "vars x" False w]
    by (cases "check_and_insert m (f x) (vars x) False w") auto
  then show ?case using Cons.IH [of w'] by (simp add: and_then_def)
qed

lemma and_then_None: "fst r = None \<Longrightarrow> and_then r f = f (snd r)"
  by (cases r) (simp add: and_then_def)

lemma has_columns_sub: "has_columns data cs \<Longrightarrow> set ds \<subseteq> set cs \<Longrightarrow> has_columns data ds"
  by (auto simp: has_columns_def list_all_iff)

lemma phase_returns: "prepare (next_uuid w) = Inr xs \<Longrightarrow> fst (phase m f prepare w) = None"
  by (simp add: phase_def insert_each_returns)

lemma insert_to_db_returns:
  assumes "has_columns data rm_columns"
  shows "fst (insert_to_db parse data w) = None"
proof -
  have c1: "has_columns data [''material_code'', ''material_description'']"
    and c2: "has_columns data [''plant'', ''plant_name'']"
    and c3: "has_columns data [''vendor_code'', ''vendor_name'']"
    and c4: "has_columns data [''sample_no'', ''material_code'', ''plant'', ''vendor_code'',
                               ''inspection_lot'', ''batch_no'', ''material_doc'', ''valuation_date'']"
    and c5: "has_columns data ([''sample_no'', ''valuation_date''] @ analysis_columns)"
    and c6: "has_columns data [''sample_no'', ''valuation_date'', ''plant_name'', ''producer'',
                               ''country'', ''original_batch'']"
    using assms by (auto simp: has_columns_def rm_columns_def list_all_iff)
  have p1: "\<And>w. fst (phase Material (by_columns [''material_code'']) (prepare_materials data) w) = None"
    using c1 by (intro phase_returns) (simp add: prepare_materials_def Let_def)
  have p2: "\<And>w. fst (phase Plant (by_columns [''plant'']) (prepare_plants data) w) = None"
    using c2 by (intro phase_returns) (simp add: prepare_plants_def Let_def)
  have p3: "\<And>w. fst (phase Vendor (by_columns [''vendor_code'']) (prepare_vendors data) w) = None"
    using c3 by (intro phase_returns) (simp add: prepare_vendors_def Let_def)
  have p4: "\<And>w a b c. fst (phase Sample (by_columns [''sample_no'', ''valuation_date''])
                 (prepare_samples data a b c) w) = None"
    using c4 by (intro phase_returns) (simp add: prepare_samples_def Let_def)
  have p5: "\<And>w sm. fst (phase AnalysisResult (by_columns [''result_id''])
                 (prepare_analysis_results parse data sm) w) = None"
    using c5 by (intro phase_returns) (simp add: prepare_analysis_results_def Let_def)
  have p6: "\<And>w sm. fst (phase MaterialSource (by_columns [''source_id''])
                 (prepare_material_sources data sm) w) = None"
    using c6 by (intro phase_returns) (simp add: prepare_material_sources_def Let_def)
  have "fst (insert_to_db_try parse data w) = None"
    unfolding insert_to_db_try_def
    by (simp add: and_then_None p1 p2 p3 p4 p5 p6 Let_def)
  then show ?thesis
    by (cases "insert_to_db_try parse data w") (simp add: insert_to_db_def)
qed

lemma map_of_pop: "map_of (pop key k) c = (if c = key then None else map_of k c)"
  unfolding pop_def by (induction k) auto

section \<open>C10: check_and_insert swallows every store error\<close>

text \<open>
  C10. In the raw-material loader \<open>check_and_insert\<close> never lets an exception out: whatever
  the model, the filters, the values, the flag and the state, it returns normally; when the
  write raised (an IntegrityError or anything else) the state it leaves is the session
  rolled back. The caller therefore sees the same outcome for a failed and for a successful
  row, and \<open>insert_to_db\<close> on a table with the canonical columns runs all its phases to the
  end and returns normally whether or not row writes failed.
\<close>

theorem check_and_insert_swallows_errors:
  "fst (check_and_insert m filters vals u w) = None
   \<and> (check_and_insert_try m filters vals u w = Inl e
        \<longrightarrow> check_and_insert m filters vals u w = (None, rollback w))
   \<and> (has_columns data rm_columns \<longrightarrow> fst (insert_to_db parse data w) = None)"
  using check_and_insert_returns check_and_insert_failed insert_to_db_returns by blast

text \<open>An instance: the Material write of a row without description raises IntegrityError;
  the call returns, the material is not stored, and the plant of the same file is.\<close>

lemma undescribed_material_fails:
  "check_and_insert_try Material [(''material_code'', CStr ''M1'')]
     (vars [(''material_id'', CUuid 0), (''material_code'', CStr ''M1''),
            (''material_description'', CNull)])
     False empty_world = Inl IntegrityError"
  by (simp add: check_and_insert_try_def execute_def Material_def col_def vars_def proposed_def
      not_null_ok_def getc_def)

lemma frame_undescribed_columns: "has_columns frame_undescribed rm_columns"
  by (simp add: has_columns_def frame_undescribed_def list_all_iff)

lemma frame_undescribed_tables:
  "committed (snd (insert_to_db no_parse frame_undescribed empty_world)) ''materials'' = []
   \<and> length (committed (snd (insert_to_db no_parse frame_undescribed empty_world)) ''plants'') = 1"
  by code_simp

theorem check_and_insert_swallows_errors_witness:
  "check_and_insert_try Material [(''material_code'', CStr ''M1'')]
     (vars [(''material_id'', CUuid 0), (''material_code'', CStr ''M1''),
            (''material_description'', CNull)])
     False empty_world = Inl IntegrityError
   \<and> check_and_insert Material [(''material_code'', CStr ''M1'')]
     (vars [(''material_id'', CUuid 0), (''material_code'', CStr ''M1''),
            (''material_description'', CNull)])
     False empty_world = (None, rollback empty_world)
   \<and> has_columns frame_undescribed rm_columns
   \<and> fst (insert_to_db no_parse frame_undescribed empty_world) = None
   \<and> committed (snd (insert_to_db no_parse frame_undescribed empty_world)) ''materials'' = []
   \<and> length (committed (snd (insert_to_db no_parse frame_undescribed empty_world)) ''plants'') = 1"
  using check_and_insert_swallows_errors
          [of Material "[(''material_code'', CStr ''M1'')]"
              "vars [(''material_id'', CUuid 0), (''material_code'', CStr ''M1''),
                     (''material_description'', CNull)]"
              False empty_world IntegrityError frame_undescribed no_parse]
        undescribed_material_fails frame_undescribed_columns frame_undescribed_tables
  by blast

section \<open>C2: a row write is a transaction of its own\<close>

lemma check_and_insert_settled:
  "pending (snd (check_and_insert m filters vals u w))
     = committed (snd (check_and_insert m filters vals u w))"
  unfolding check_and_insert_def check_and_insert_try_def
  by (auto simp: commit_def rollback_def Let_def split: sum.splits error.splits)

lemma rollback_settled: "pending w = committed w \<Longrightarrow> rollback w = w"
  by (simp add: rollback_def)

lemma insert_each_settled:
  "pending w = committed w \<Longrightarrow>
   pending (snd (insert_each m f xs w)) = committed (snd (insert_each m f xs w))"
proof (induction xs arbitrary: w)
  case Nil
  then show ?case by simp
next
  case (Cons x xs)
  let ?r = "check_and_insert m (f x) (vars x) False w"
  have "fst ?r = None" by (rule check_and_insert_returns)
  then have "insert_each m f (x # xs) w = insert_each m f xs (snd ?r)"
    by (simp add: and_then_None)
  then show ?case using Cons.IH [OF check_and_insert_settled] by simp
qed

lemma insert_each_append:
  "insert_each m f (xs @ ys) w = insert_each m f ys (snd (insert_each m f xs w))"
proof (induction xs arbitrary: w)
  case Nil
  show ?case by simp
next
  case (Cons x xs)
  have "fst (check_and_insert m (f x) (vars x) False w) = None" by (rule check_and_insert_returns)
  then show ?case using Cons.IH by (simp add: and_then_None)
qed

lemma insert_each_skips_failed:
  assumes "pending w = committed w"
    and "check_and_insert_try m (f x) (vars x) False (snd (insert_each m f xs w)) = Inl e"
  shows "insert_each m f (xs @ x # ys) w = insert_each m f (xs @ ys) w"
proof -
  let ?w = "snd (insert_each m f xs w)"
  have "check_and_insert m (f x) (vars x) False ?w = (None, ?w)"
    using check_and_insert_failed [OF assms(2)]
      rollback_settled [OF insert_each_settled [OF assms(1)]]
    by simp
  then have "insert_each m f (x # ys) ?w = insert_each m f ys ?w"
    by (simp add: and_then_def)
  then show ?thesis by (simp add: insert_each_append)
qed

lemma upsert_each_append:
  "fst (upsert_each up m xs w) = None \<Longrightarrow>
   upsert_each up m (xs @ ys) w = upsert_each up m ys (snd (upsert_each up m xs w))"
proof (induction xs arbitrary: w)
  case Nil
  show ?case by simp
next
  case (Cons x xs)
  show ?case
  proof (cases "check_and_insert_fp up m x w")
    case (Pair a w')
    with Cons.prems have "a = None" by (cases a) (simp_all add: and_then_def)
    with Pair Cons.prems Cons.IH [of w'] show ?thesis by (simp add: and_then_def)
  qed
qed

lemma upsert_each_stops:
  assumes "fst (upsert_each up m xs w) = None"
    and "up (to_clean_dict m x) (snd (upsert_each up m xs w)) = Inl e"
  shows "handled (upsert_each up m (xs @ x # ys) w)
           = (Some e, rollback (snd (upsert_each up m xs w)))"
  using assms
  by (simp add: upsert_each_append check_and_insert_fp_def and_then_def handled_def)

lemma undescribed_always_fails:
  "check_and_insert_try Material (by_columns [''material_code''] material_m2_undescribed)
     (vars material_m2_undescribed) False w = Inl IntegrityError"
  by (simp add: check_and_insert_try_def execute_def Material_def col_def vars_def proposed_def
      not_null_ok_def getc_def material_m2_undescribed_def)

lemma undescribed_upsert_fails:
  "Material_upsert (to_clean_dict Material_fp material_m2_undescribed) w = Inl IntegrityError"
  by (simp add: Material_upsert_def to_clean_dict_def upsert_on_def execute_def Material_fp_def
      col_def proposed_def not_null_ok_def getc_def material_m2_undescribed_def truthy_def pop_def)

lemma first_material_stays:
  "committed (snd (insert_each Material (by_columns [''material_code''])
       [material_m1, material_m2_undescribed] empty_world)) ''materials'' = [material_m1]"
  by code_simp

lemma first_upsert_succeeds:
  "fst (upsert_each Material_upsert Material_fp [material_m1] empty_world) = None
   \<and> committed (snd (upsert_each Material_upsert Material_fp [material_m1] empty_world)) ''materials''
       = [material_m1 @ [(''material_old_code'', CNull)]]"
  by code_simp

lemma check_and_insert_stores:
  assumes "not_null_ok m (proposed m w (filter (\<lambda>(k, v). k \<in> set (map cname (cols m))) vals))"
    and "\<not> violates_unique m (pending w (tablename m))
            (proposed m w (filter (\<lambda>(k, v). k \<in> set (map cname (cols m))) vals))"
    and "fk_ok (pending w) m (proposed m w (filter (\<lambda>(k, v). k \<in> set (map cname (cols m))) vals))"
  shows "committed (snd (check_and_insert m filters vals False w))
           = (pending w)(tablename m := pending w (tablename m)
                @ [proposed m w (filter (\<lambda>(k, v). k \<in> set (map cname (cols m))) vals)])"
proof -
  let ?vals = "filter (\<lambda>(k, v). k \<in> set (map cname (cols m))) vals"
  have names: "list_all (\<lambda>k. k \<in> set (map cname (cols m))) (map fst ?vals)"
    by (auto simp: list_all_iff)
  show ?thesis
    using assms names
    unfolding check_and_insert_def check_and_insert_try_def execute_def store_row_def
    by (simp add: Let_def commit_def)
qed

lemma check_and_insert_undone:
  assumes "pending w = committed w"
    and "check_and_insert_try m filters vals u w = Inl e"
  shows "snd (check_and_insert m filters vals u w) = w"
  using check_and_insert_failed [OF assms(2)] rollback_settled [OF assms(1)] by simp

lemma check_and_insert_grows:
  assumes "pending w = committed w"
  shows "\<exists>zs. committed (snd (check_and_insert m filters vals False w)) t = committed w t @ zs"
  using assms
  unfolding check_and_insert_def check_and_insert_try_def execute_def store_row_def
  by (auto simp: Let_def commit_def rollback_def split: sum.splits error.splits if_splits)

lemma insert_each_grows:
  "pending w = committed w \<Longrightarrow>
   \<exists>zs. committed (snd (insert_each m f xs w)) t = committed w t @ zs"
proof (induction xs arbitrary: w)
  case Nil
  then show ?case by simp
next
  case (Cons x xs)
  let ?r = "check_and_insert m (f x) (vars x) False w"
  have "fst ?r = None" by (rule check_and_insert_returns)
  then have step: "insert_each m f (x # xs) w = insert_each m f xs (snd ?r)"
    by (simp add: and_then_None)
  obtain zs where a: "committed (snd ?r) t = committed w t @ zs"
    using check_and_insert_grows [OF Cons.prems] by blast
  obtain zs' where b: "committed (snd (insert_each m f xs (snd ?r))) t = committed (snd ?r) t @ zs'"
    using Cons.IH [OF check_and_insert_settled] by blast
  show ?case unfolding step using a b by simp
qed

lemma insert_each_keeps_committed:
  assumes "pending w = committed w"
  shows "\<exists>zs. committed (snd (insert_each m f (xs @ ys) w)) t
               = committed (snd (insert_each m f xs w)) t @ zs"
  unfolding insert_each_append
  by (rule insert_each_grows [OF insert_each_settled [OF assms]])

lemma upsert_on_commits: "upsert_on m idx kept kwargs w = Inr w' \<Longrightarrow> committed w' = pending w'"
  unfolding upsert_on_def by (auto simp: Let_def commit_def split: sum.splits)

lemma upserts_commit:
  assumes "up \<in> {Material_upsert, Plants_upsert, Formula_upsert, Samples_upsert,
                   AnalysisResults_upsert}"
    and "up kwargs w = Inr w'"
  shows "committed w' = pending w'"
  using assms
  unfolding Material_upsert_def Plants_upsert_def Formula_upsert_def Samples_upsert_def
    AnalysisResults_upsert_def Let_def
  by (auto dest: upsert_on_commits)

lemma upsert_on_stores:
  assumes "upsert_on m idx kept kwargs w = Inr w'"
    and "find (conflicts idx (proposed m w kwargs)) (pending w (tablename m)) = None"
  shows "committed w' = (pending w)(tablename m := pending w (tablename m) @ [proposed m w kwargs])"
  using assms
  unfolding upsert_on_def execute_def store_row_def
  by (auto simp: Let_def commit_def split: sum.splits if_splits)

lemma upsert_each_settled:
  assumes "up \<in> {Material_upsert, Plants_upsert, Formula_upsert, Samples_upsert,
                   AnalysisResults_upsert}"
  shows "pending w = committed w \<Longrightarrow>
         pending (snd (upsert_each up m xs w)) = committed (snd (upsert_each up m xs w))"
proof (induction xs arbitrary: w)
  case Nil
  then show ?case by simp
next
  case (Cons x xs)
  show ?case
  proof (cases "up (to_clean_dict m x) w")
    case (Inl e)
    then show ?thesis using Cons.prems by (simp add: check_and_insert_fp_def and_then_def)
  next
    case (Inr w')
    have "pending w' = committed w'" using upserts_commit [OF assms Inr] by simp
    then show ?thesis using Cons.IH [of w'] Inr by (simp add: check_and_insert_fp_def and_then_def)
  qed
qed

lemma upsert_each_stops_settled:
  assumes "up \<in> {Material_upsert, Plants_upsert, Formula_upsert, Samples_upsert,
                   AnalysisResults_upsert}"
    and "pending w = committed w"
    and "fst (upsert_each up m xs w) = None"
    and "up (to_clean_dict m x) (snd (upsert_each up m xs w)) = Inl e"
  shows "handled (upsert_each up m (xs @ x # ys) w) = (Some e, snd (upsert_each up m xs w))
         \<and> committed (snd (upsert_each up m xs w)) = pending (snd (upsert_each up m xs w))"
  using upsert_each_stops [OF assms(3,4)] upsert_each_settled [OF assms(1,2)]
    rollback_settled [of "snd (upsert_each up m xs w)"]
  by simp

text \<open>
  C2, as the claim states it, fails. The Material phase of the raw-material loader over the
  entities M1 and M2, M2 without description: the write of M2 raises IntegrityError, and
  after the phase the store holds M1, a row of the failed phase.
\<close>

theorem phase_rollback_counterexample:
  "check_and_insert_try Material (by_columns [''material_code''] material_m2_undescribed)
     (vars material_m2_undescribed) False
     (snd (insert_each Material (by_columns [''material_code'']) [material_m1] empty_world))
     = Inl IntegrityError
   \<and> committed (snd (insert_each Material (by_columns [''material_code''])
         [material_m1, material_m2_undescribed] empty_world)) ''materials'' = [material_m1]"
  using undescribed_always_fails first_material_stays by simp

text \<open>
  C2, amended. Every row write is a transaction of its own, committed as soon as it
  succeeds; a failing row write undoes that row only.

  In the raw-material loader: after \<open>check_and_insert\<close> nothing is left uncommitted; a write
  that the store accepts and that collides with no stored row ends with the proposed row
  appended to its table and committed; a write that raises leaves the state as it was. A
  phase with a failing row \<open>x\<close> ends exactly as the phase without \<open>x\<close> does, so the rows
  after it are still written, and every table still starts with the rows that were
  committed when \<open>x\<close> was reached.

  In the finished-product loader: each of the five upserts, when it succeeds, leaves
  nothing uncommitted; an upsert of a key that is not stored ends with the proposed row
  appended to its table and committed. A phase stops at the first failing row \<open>x\<close> with the
  exception of \<open>x\<close>, and after the rollback of \<open>update_to_db\<close> the state is the one the
  rows before \<open>x\<close> left, all of it committed.
\<close>

theorem row_writes_commit_one_by_one:
  "(\<forall>m filters vals u w.
      committed (snd (check_and_insert m filters vals u w))
        = pending (snd (check_and_insert m filters vals u w)))
   \<and> (\<forall>m filters vals w.
        not_null_ok m (proposed m w (filter (\<lambda>(k, v). k \<in> set (map cname (cols m))) vals))
        \<and> \<not> violates_unique m (pending w (tablename m))
              (proposed m w (filter (\<lambda>(k, v). k \<in> set (map cname (cols m))) vals))
        \<and> fk_ok (pending w) m (proposed m w (filter (\<lambda>(k, v). k \<in> set (map cname (cols m))) vals))
      \<longrightarrow> committed (snd (check_and_insert m filters vals False w))
            = (pending w)(tablename m := pending w (tablename m)
                 @ [proposed m w (filter (\<lambda>(k, v). k \<in> set (map cname (cols m))) vals)]))
   \<and> (\<forall>m filters vals u w e.
        pending w = committed w \<and> check_and_insert_try m filters vals u w = Inl e
      \<longrightarrow> snd (check_and_insert m filters vals u w) = w)
   \<and> (\<forall>m f xs x ys w e.
        pending w = committed w
        \<and> check_and_insert_try m (f x) (vars x) False (snd (insert_each m f xs w)) = Inl e
      \<longrightarrow> insert_each m f (xs @ x # ys) w = insert_each m f (xs @ ys) w
          \<and> (\<forall>t. \<exists>zs. committed (snd (insert_each m f (xs @ x # ys) w)) t
                        = committed (snd (insert_each m f xs w)) t @ zs))
   \<and> (\<forall>up kwargs w w'.
        up \<in> {Material_upsert, Plants_upsert, Formula_upsert, Samples_upsert,
               AnalysisResults_upsert}
        \<and> up kwargs w = Inr w'
      \<longrightarrow> committed w' = pending w')
   \<and> (\<forall>m idx kept kwargs w w'.
        upsert_on m idx kept kwargs w = Inr w'
        \<and> find (conflicts idx (proposed m w kwargs)) (pending w (tablename m)) = None
      \<longrightarrow> committed w'
            = (pending w)(tablename m := pending w (tablename m) @ [proposed m w kwargs]))
   \<and> (\<forall>up m xs x ys w e.
        up \<in> {Material_upsert, Plants_upsert, Formula_upsert, Samples_upsert,
               AnalysisResults_upsert}
        \<and> pending w = committed w
        \<and> fst (upsert_each up m xs w) = None
        \<and> up (to_clean_dict m x) (snd (upsert_each up m xs w)) = Inl e
      \<longrightarrow> handled (upsert_each up m (xs @ x # ys) w) = (Some e, snd (upsert_each up m xs w))
          \<and> committed (snd (upsert_each up m xs w)) = pending (snd (upsert_each up m xs w)))"
proof (intro conjI allI impI)
  fix m filters vals u w
  show "committed (snd (check_and_insert m filters vals u w))
        = pending (snd (check_and_insert m filters vals u w))"
    by (rule check_and_insert_settled [symmetric])
next
  fix m filters vals w
  assume "not_null_ok m (proposed m w (filter (\<lambda>(k, v). k \<in> set (map cname (cols m))) vals))
        \<and> \<not> violates_unique m (pending w (tablename m))
              (proposed m w (filter (\<lambda>(k, v). k \<in> set (map cname (cols m))) vals))
        \<and> fk_ok (pending w) m (proposed m w (filter (\<lambda>(k, v). k \<in> set (map cname (cols m))) vals))"
  then show "committed (snd (check_and_insert m filters vals False w))
            = (pending w)(tablename m := pending w (tablename m)
                 @ [proposed m w (filter (\<lambda>(k, v). k \<in> set (map cname (cols m))) vals)])"
    using check_and_insert_stores by blast
next
  fix m filters vals u w e
  assume "pending w = committed w \<and> check_and_insert_try m filters vals u w = Inl e"
  then show "snd (check_and_insert m filters vals u w) = w"
    using check_and_insert_undone by blast
next
  fix m f xs x ys w e
  assume a: "pending w = committed w
        \<and> check_and_insert_try m (f x) (vars x) False (snd (insert_each m f xs w)) = Inl e"
  then show "insert_each m f (xs @ x # ys) w = insert_each m f (xs @ ys) w"
    using insert_each_skips_failed by blast
  fix t
  from a show "\<exists>zs. committed (snd (insert_each m f (xs @ x # ys) w)) t
                        = committed (snd (insert_each m f xs w)) t @ zs"
    using insert_each_keeps_committed by blast
next
  fix up kwargs w w'
  assume "up \<in> {Material_upsert, Plants_upsert, Formula_upsert, Samples_upsert,
               AnalysisResults_upsert}
        \<and> up kwargs w = Inr w'"
  then show "committed w' = pending w'" using upserts_commit by blast
next
  fix m idx kept kwargs w w'
  assume "upsert_on m idx kept kwargs w = Inr w'
        \<and> find (conflicts idx (proposed m w kwargs)) (pending w (tablename m)) = None"
  then show "committed w'
            = (pending w)(tablename m := pending w (tablename m) @ [proposed m w kwargs])"
    using upsert_on_stores by blast
next
  fix up m xs x ys w e
  assume a: "up \<in> {Material_upsert, Plants_upsert, Formula_upsert, Samples_upsert,
               AnalysisResults_upsert}
        \<and> pending w = committed w
        \<and> fst (upsert_each up m xs w) = None
        \<and> up (to_clean_dict m x) (snd (upsert_each up m xs w)) = Inl e"
  then have b: "handled (upsert_each up m (xs @ x # ys) w) = (Some e, snd (upsert_each up m xs w))
         \<and> committed (snd (upsert_each up m xs w)) = pending (snd (upsert_each up m xs w))"
    using upsert_each_stops_settled [of up w m xs x e ys] by blast
  from b show "handled (upsert_each up m (xs @ x # ys) w) = (Some e, snd (upsert_each up m xs w))"
    by blast
  from b show "committed (snd (upsert_each up m xs w)) = pending (snd (upsert_each up m xs w))"
    by blast
qed

text \<open>The raw-material Material phase over M1, the undescribed M2 and M3, from an empty
  store; and the same three entities through \<open>Material.upsert\<close>.\<close>

lemma first_write_setting:
  "not_null_ok Material (proposed Material empty_world
      (filter (\<lambda>(k, v). k \<in> set (map cname (cols Material))) (vars material_m1)))
   \<and> \<not> violates_unique Material (pending empty_world (tablename Material))
        (proposed Material empty_world
           (filter (\<lambda>(k, v). k \<in> set (map cname (cols Material))) (vars material_m1)))
   \<and> fk_ok (pending empty_world) Material (proposed Material empty_world
        (filter (\<lambda>(k, v). k \<in> set (map cname (cols Material))) (vars material_m1)))"
  by code_simp

lemma first_write_row:
  "tablename Material = ''materials''
   \<and> pending empty_world ''materials'' = []
   \<and> proposed Material empty_world
        (filter (\<lambda>(k, v). k \<in> set (map cname (cols Material))) (vars material_m1)) = material_m1"
  by code_simp

lemma failing_write_setting:
  "pending (snd (insert_each Material (by_columns [''material_code'']) [material_m1] empty_world))
     = committed (snd (insert_each Material (by_columns [''material_code'']) [material_m1] empty_world))
   \<and> check_and_insert_try Material (by_columns [''material_code''] material_m2_undescribed)
        (vars material_m2_undescribed) False
        (snd (insert_each Material (by_columns [''material_code'']) [material_m1] empty_world))
       = Inl IntegrityError"
  using undescribed_always_fails
    insert_each_settled [of empty_world Material "by_columns [''material_code'']" "[material_m1]"]
  by (simp add: empty_world_def)

lemma failing_phase_setting:
  "pending empty_world = committed empty_world
   \<and> check_and_insert_try Material (by_columns [''material_code''] material_m2_undescribed)
        (vars material_m2_undescribed) False
        (snd (insert_each Material (by_columns [''material_code'']) [material_m1] empty_world))
       = Inl IntegrityError"
  using undescribed_always_fails by (simp add: empty_world_def)

lemma failing_phase_tables:
  "committed (snd (insert_each Material (by_columns [''material_code'']) [material_m1]
      empty_world)) ''materials'' = [material_m1]
   \<and> committed (snd (insert_each Material (by_columns [''material_code''])
        ([material_m1] @ material_m2_undescribed # [material_m3]) empty_world)) ''materials''
       = [material_m1, material_m3]"
  by code_simp

lemma first_upsert_setting:
  "Material_upsert \<in> {Material_upsert, Plants_upsert, Formula_upsert, Samples_upsert,
                       AnalysisResults_upsert}
   \<and> Material_upsert (to_clean_dict Material_fp material_m1) empty_world
       = Inr (projr (Material_upsert (to_clean_dict Material_fp material_m1) empty_world))"
proof -
  have "\<not> isl (Material_upsert (to_clean_dict Material_fp material_m1) empty_world)"
    by code_simp
  then show ?thesis
    by (cases "Material_upsert (to_clean_dict Material_fp material_m1) empty_world") simp_all
qed

lemma first_upsert_on_setting:
  "upsert_on Material_fp [''material_code''] [''material_id'', ''material_old_code'']
      (to_clean_dict Material_fp material_m1) empty_world
     = Inr (projr (Material_upsert (to_clean_dict Material_fp material_m1) empty_world))
   \<and> find (conflicts [''material_code'']
             (proposed Material_fp empty_world (to_clean_dict Material_fp material_m1)))
        (pending empty_world (tablename Material_fp)) = None"
proof -
  have "\<not> truthy (map_of (to_clean_dict Material_fp material_m1) ''material_old_code'')"
    by code_simp
  then have "Material_upsert (to_clean_dict Material_fp material_m1) empty_world
      = upsert_on Material_fp [''material_code''] [''material_id'', ''material_old_code'']
          (to_clean_dict Material_fp material_m1) empty_world"
    by (simp add: Material_upsert_def Let_def)
  moreover have "find (conflicts [''material_code'']
             (proposed Material_fp empty_world (to_clean_dict Material_fp material_m1)))
        (pending empty_world (tablename Material_fp)) = None"
    by code_simp
  ultimately show ?thesis using first_upsert_setting by simp
qed

lemma first_upsert_row:
  "tablename Material_fp = ''materials''
   \<and> pending empty_world ''materials'' = []
   \<and> proposed Material_fp empty_world (to_clean_dict Material_fp material_m1)
       = material_m1 @ [(''material_old_code'', CNull)]"
  by code_simp

lemma failing_upsert_setting:
  "Material_upsert \<in> {Material_upsert, Plants_upsert, Formula_upsert, Samples_upsert,
                       AnalysisResults_upsert}
   \<and> pending empty_world = committed empty_world
   \<and> fst (upsert_each Material_upsert Material_fp [material_m1] empty_world) = None
   \<and> Material_upsert (to_clean_dict Material_fp material_m2_undescribed)
        (snd (upsert_each Material_upsert Material_fp [material_m1] empty_world))
       = Inl IntegrityError"
  using first_upsert_succeeds undescribed_upsert_fails by (simp add: empty_world_def)

lemma failing_upsert_tables:
  "committed (snd (upsert_each Material_upsert Material_fp [material_m1] empty_world)) ''materials''
     = [material_m1 @ [(''material_old_code'', CNull)]]"
  using first_upsert_succeeds by simp

theorem row_writes_commit_one_by_one_witness:
  "committed (snd (check_and_insert Material (by_columns [''material_code''] material_m1)
       (vars material_m1) False empty_world))
     = pending (snd (check_and_insert Material (by_columns [''material_code''] material_m1)
         (vars material_m1) False empty_world))
   \<and> (not_null_ok Material (proposed Material empty_world
         (filter (\<lambda>(k, v). k \<in> set (map cname (cols Material))) (vars material_m1)))
      \<and> \<not> violates_unique Material (pending empty_world (tablename Material))
           (proposed Material empty_world
              (filter (\<lambda>(k, v). k \<in> set (map cname (cols Material))) (vars material_m1)))
      \<and> fk_ok (pending empty_world) Material (proposed Material empty_world
           (filter (\<lambda>(k, v). k \<in> set (map cname (cols Material))) (vars material_m1))))
   \<and> committed (snd (check_and_insert Material (by_columns [''material_code''] material_m1)
        (vars material_m1) False empty_world)) ''materials'' = [material_m1]
   \<and> (pending (snd (insert_each Material (by_columns [''material_code'']) [material_m1] empty_world))
        = committed (snd (insert_each Material (by_columns [''material_code'']) [material_m1]
            empty_world))
      \<and> check_and_insert_try Material (by_columns [''material_code''] material_m2_undescribed)
           (vars material_m2_undescribed) False
           (snd (insert_each Material (by_columns [''material_code'']) [material_m1] empty_world))
          = Inl IntegrityError)
   \<and> snd (check_and_insert Material (by_columns [''material_code''] material_m2_undescribed)
        (vars material_m2_undescribed) False
        (snd (insert_each Material (by_columns [''material_code'']) [material_m1] empty_world)))
       = snd (insert_each Material (by_columns [''material_code'']) [material_m1] empty_world)
   \<and> pending empty_world = committed empty_world
   \<and> (insert_each Material (by_columns [''material_code''])
         ([material_m1] @ material_m2_undescribed # [material_m3]) empty_world
        = insert_each Material (by_columns [''material_code''])
            ([material_m1] @ [material_m3]) empty_world
      \<and> (\<forall>t. \<exists>zs. committed (snd (insert_each Material (by_columns [''material_code''])
                       ([material_m1] @ material_m2_undescribed # [material_m3]) empty_world)) t
                   = committed (snd (insert_each Material (by_columns [''material_code''])
                       [material_m1] empty_world)) t @ zs))
   \<and> (committed (snd (insert_each Material (by_columns [''material_code'']) [material_m1]
          empty_world)) ''materials'' = [material_m1]
      \<and> committed (snd (insert_each Material (by_columns [''material_code''])
           ([material_m1] @ material_m2_undescribed # [material_m3]) empty_world)) ''materials''
          = [material_m1, material_m3])
   \<and> (Material_upsert \<in> {Material_upsert, Plants_upsert, Formula_upsert, Samples_upsert,
                          AnalysisResults_upsert}
      \<and> Material_upsert (to_clean_dict Material_fp material_m1) empty_world
          = Inr (projr (Material_upsert (to_clean_dict Material_fp material_m1) empty_world)))
   \<and> committed (projr (Material_upsert (to_clean_dict Material_fp material_m1) empty_world))
       = pending (projr (Material_upsert (to_clean_dict Material_fp material_m1) empty_world))
   \<and> (upsert_on Material_fp [''material_code''] [''material_id'', ''material_old_code'']
         (to_clean_dict Material_fp material_m1) empty_world
        = Inr (projr (Material_upsert (to_clean_dict Material_fp material_m1) empty_world))
      \<and> find (conflicts [''material_code'']
                (proposed Material_fp empty_world (to_clean_dict Material_fp material_m1)))
           (pending empty_world (tablename Material_fp)) = None)
   \<and> committed (projr (Material_upsert (to_clean_dict Material_fp material_m1) empty_world))
        ''materials'' = [material_m1 @ [(''material_old_code'', CNull)]]
   \<and> (fst (upsert_each Material_upsert Material_fp [material_m1] empty_world) = None
      \<and> Material_upsert (to_clean_dict Material_fp material_m2_undescribed)
           (snd (upsert_each Material_upsert Material_fp [material_m1] empty_world))
          = Inl IntegrityError)
   \<and> (handled (upsert_each Material_upsert Material_fp
         ([material_m1] @ material_m2_undescribed # [material_m3]) empty_world)
        = (Some IntegrityError,
           snd (upsert_each Material_upsert Material_fp [material_m1] empty_world))
      \<and> committed (snd (upsert_each Material_upsert Material_fp [material_m1] empty_world))
          = pending (snd (upsert_each Material_upsert Material_fp [material_m1] empty_world)))
   \<and> committed (snd (upsert_each Material_upsert Material_fp [material_m1] empty_world)) ''materials''
       = [material_m1 @ [(''material_old_code'', CNull)]]"
proof -
  note c1 = row_writes_commit_one_by_one [THEN conjunct1, rule_format,
      of Material "by_columns [''material_code''] material_m1" "vars material_m1" False empty_world]
  note c2 = row_writes_commit_one_by_one [THEN conjunct2, THEN conjunct1, rule_format,
      OF first_write_setting, of "by_columns [''material_code''] material_m1"]
  have c2': "committed (snd (check_and_insert Material (by_columns [''material_code''] material_m1)
        (vars material_m1) False empty_world)) ''materials'' = [material_m1]"
    unfolding c2 using first_write_row by simp
  note c3 = row_writes_commit_one_by_one [THEN conjunct2, THEN conjunct2, THEN conjunct1,
      rule_format, OF failing_write_setting]
  note c4 = row_writes_commit_one_by_one [THEN conjunct2, THEN conjunct2, THEN conjunct2,
      THEN conjunct1, rule_format, OF failing_phase_setting, of "[material_m3]"]
  note c5 = row_writes_commit_one_by_one [THEN conjunct2, THEN conjunct2, THEN conjunct2,
      THEN conjunct2, THEN conjunct1, rule_format, OF first_upsert_setting]
  note c6 = row_writes_commit_one_by_one [THEN conjunct2, THEN conjunct2, THEN conjunct2,
      THEN conjunct2, THEN conjunct2, THEN conjunct1, rule_format, OF first_upsert_on_setting]
  have c6': "committed (projr (Material_upsert (to_clean_dict Material_fp material_m1) empty_world))
        ''materials'' = [material_m1 @ [(''material_old_code'', CNull)]]"
    unfolding c6 using first_upsert_row by simp
  note c7 = row_writes_commit_one_by_one [THEN conjunct2, THEN conjunct2, THEN conjunct2,
      THEN conjunct2, THEN conjunct2, THEN conjunct2, rule_format, OF failing_upsert_setting,
      of "[material_m3]"]
  have s: "pending empty_world = committed empty_world"
    using failing_phase_setting by blast
  have f: "fst (upsert_each Material_upsert Material_fp [material_m1] empty_world) = None
      \<and> Material_upsert (to_clean_dict Material_fp material_m2_undescribed)
           (snd (upsert_each Material_upsert Material_fp [material_m1] empty_world))
          = Inl IntegrityError"
    using failing_upsert_setting by blast
  show ?thesis
    by (intro conjI [OF c1] conjI [OF first_write_setting] conjI [OF c2']
        conjI [OF failing_write_setting] conjI [OF c3] conjI [OF s] conjI [OF c4]
        conjI [OF failing_phase_tables] conjI [OF first_upsert_setting] conjI [OF c5]
        conjI [OF first_upsert_on_setting] conjI [OF c6'] conjI [OF f] conjI [OF c7]
        failing_upsert_tables)
qed

section \<open>C7: a write whose key is already stored\<close>

lemma do_nothing_on_conflict:
  assumes "pending w = committed w"
    and "key \<in> set (uniques m)" and "old \<in> set (pending w (tablename m))"
    and "conflicts key (proposed m w (filter (\<lambda>(k, v). k \<in> set (map cname (cols m))) vals)) old"
  shows "committed (snd (check_and_insert m filters vals False w)) = committed w"
proof -
  have "violates_unique m (pending w (tablename m))
          (proposed m w (filter (\<lambda>(k, v). k \<in> set (map cname (cols m))) vals))"
    using assms(2-4) by (auto simp: violates_unique_def list_ex_iff)
  then show ?thesis
    using assms(1)
    unfolding check_and_insert_def check_and_insert_try_def execute_def
    by (auto simp: Let_def commit_def rollback_def split: sum.splits error.splits if_splits)
qed

lemma upsert_on_updates_db:
  assumes "upsert_on m idx kept kwargs w = Inr w'"
    and "find (conflicts idx (proposed m w kwargs)) (pending w (tablename m)) = Some old"
  shows "committed w' = (pending w)(tablename m :=
           map (\<lambda>r. if r = old
                     then map (\<lambda>(c, v). (c, if c \<in> set (filter (\<lambda>c. c \<notin> set kept) (map cname (cols m)))
                                             then getc (proposed m w kwargs) c else v)) old
                     else r)
             (pending w (tablename m)))"
  using assms
  unfolding upsert_on_def execute_def update_row_def
  by (auto simp: Let_def commit_def split: sum.splits if_splits)

lemma proposed_pop_material:
  "c \<noteq> ''material_old_code'' \<Longrightarrow>
   getc (proposed Material_fp w (pop ''material_old_code'' kwargs)) c
     = getc (proposed Material_fp w kwargs) c"
  by (simp add: proposed_def Material_fp_def col_def getc_def map_of_pop)

lemma conflicts_pop_material:
  "conflicts [''material_code''] (proposed Material_fp w (pop ''material_old_code'' kwargs))
     = conflicts [''material_code''] (proposed Material_fp w kwargs)"
  by (simp add: conflicts_def key_of_def proposed_pop_material fun_eq_iff)

lemma material_upsert_updates:
  assumes "Material_upsert kwargs w = Inr w'"
    and "find (conflicts [''material_code''] (proposed Material_fp w kwargs)) (pending w ''materials'')
           = Some old"
  shows "committed w' = (pending w)(''materials'' :=
           map (\<lambda>r. if r = old
                     then map (\<lambda>(c, v). (c, if c \<in> set [''material_code'', ''material_description'']
                                             then getc (proposed Material_fp w kwargs) c else v)) old
                     else r)
             (pending w ''materials''))"
proof -
  have tn: "tablename Material_fp = ''materials''" by (simp add: Material_fp_def)
  have upd: "filter (\<lambda>c. c \<notin> set [''material_id'', ''material_old_code'']) (map cname (cols Material_fp))
               = [''material_code'', ''material_description'']"
    by (simp add: Material_fp_def col_def)
  have "Material_upsert kwargs w
        = upsert_on Material_fp [''material_code''] [''material_id'', ''material_old_code''] kwargs w
    \<or> Material_upsert kwargs w
        = upsert_on Material_fp [''material_code''] [''material_id'', ''material_old_code'']
            (pop ''material_old_code'' kwargs) w"
    by (simp add: Material_upsert_def Let_def split: option.splits)
  then consider (same) "Material_upsert kwargs w
        = upsert_on Material_fp [''material_code''] [''material_id'', ''material_old_code''] kwargs w"
    | (popped) "Material_upsert kwargs w
        = upsert_on Material_fp [''material_code''] [''material_id'', ''material_old_code'']
            (pop ''material_old_code'' kwargs) w"
    by blast
  then show ?thesis
  proof cases
    case same
    have r: "upsert_on Material_fp [''material_code''] [''material_id'', ''material_old_code'']
               kwargs w = Inr w'"
      using assms(1) same by simp
    show ?thesis
      using upsert_on_updates_db [OF r assms(2) [folded tn]] unfolding tn upd .
  next
    case popped
    let ?k = "pop ''material_old_code'' kwargs"
    have r: "upsert_on Material_fp [''material_code''] [''material_id'', ''material_old_code'']
               ?k w = Inr w'"
      using assms(1) popped by simp
    have f: "find (conflicts [''material_code''] (proposed Material_fp w ?k))
               (pending w (tablename Material_fp)) = Some old"
      using assms(2) by (simp add: conflicts_pop_material tn)
    have g: "\<And>c. c \<in> set [''material_code'', ''material_description''] \<Longrightarrow>
        getc (proposed Material_fp w ?k) c = getc (proposed Material_fp w kwargs) c"
      by (rule proposed_pop_material) auto
    have h: "(\<lambda>(c, v). (c, if c \<in> set [''material_code'', ''material_description'']
                                             then getc (proposed Material_fp w ?k) c else v))
        = (\<lambda>(c, v). (c, if c \<in> set [''material_code'', ''material_description'']
                                             then getc (proposed Material_fp w kwargs) c else v))"
      using g by (auto simp: fun_eq_iff)
    show ?thesis
      using upsert_on_updates_db [OF r f] unfolding tn upd h .
  qed
qed

lemma plants_upsert_updates_db:
  assumes "Plants_upsert kwargs w = Inr w'"
    and "find (conflicts [''plant''] (proposed Plants w kwargs)) (pending w ''plants'') = Some old"
  shows "committed w' = (pending w)(''plants'' :=
           map (\<lambda>r. if r = old
                     then map (\<lambda>(c, v). (c, if c \<in> set [''plant'', ''plant_name'']
                                             then getc (proposed Plants w kwargs) c else v)) old
                     else r)
             (pending w ''plants''))"
proof -
  have tn: "tablename Plants = ''plants''" by (simp add: Plants_def)
  have upd: "filter (\<lambda>c. c \<notin> set [''plant_id'']) (map cname (cols Plants)) = [''plant'', ''plant_name'']"
    by (simp add: Plants_def col_def)
  show ?thesis
    using upsert_on_updates_db [OF assms(1) [unfolded Plants_upsert_def] assms(2) [folded tn]]
    unfolding tn upd .
qed

lemma formula_upsert_updates:
  assumes "Formula_upsert kwargs w = Inr w'"
    and "find (conflicts [''formula_name''] (proposed Formula w kwargs)) (pending w ''formula'') = Some old"
  shows "committed w' = (pending w)(''formula'' :=
           map (\<lambda>r. if r = old
                     then map (\<lambda>(c, v). (c, if c \<in> set [''formula_name'']
                                             then getc (proposed Formula w kwargs) c else v)) old
                     else r)
             (pending w ''formula''))"
proof -
  have tn: "tablename Formula = ''formula''" by (simp add: Formula_def)
  have upd: "filter (\<lambda>c. c \<notin> set [''formula_id'']) (map cname (cols Formula)) = [''formula_name'']"
    by (simp add: Formula_def col_def)
  show ?thesis
    using upsert_on_updates_db [OF assms(1) [unfolded Formula_upsert_def] assms(2) [folded tn]]
    unfolding tn upd .
qed

lemma samples_upsert_updates:
  assumes "Samples_upsert kwargs w = Inr w'"
    and "find (conflicts [''sample_id'', ''manufacturing_date''] (proposed Samples w kwargs))
           (pending w ''samples'') = Some old"
  shows "committed w' = (pending w)(''samples'' :=
           map (\<lambda>r. if r = old
                     then map (\<lambda>(c, v). (c, if c \<in> set [''material_id'', ''plant_id'', ''formula_id'',
                                  ''sample_no'', ''inspection_lot'', ''truck_no'', ''pallet_no'',
                                  ''batch_no'', ''bin_no'', ''load_time'', ''validation_code'', ''remark'']
                                             then getc (proposed Samples w kwargs) c else v)) old
                     else r)
             (pending w ''samples''))"
proof -
  have tn: "tablename Samples = ''samples''" by (simp add: Samples_def)
  have upd: "filter (\<lambda>c. c \<notin> set [''sample_id'', ''manufacturing_date'', ''created_at'']) (map cname (cols Samples)) = [''material_id'', ''plant_id'', ''formula_id'', ''sample_no'', ''inspection_lot'', ''truck_no'', ''pallet_no'', ''batch_no'', ''bin_no'', ''load_time'', ''validation_code'', ''remark'']"
    by (simp add: Samples_def col_def)
  show ?thesis
    using upsert_on_updates_db [OF assms(1) [unfolded Samples_upsert_def] assms(2) [folded tn]]
    unfolding tn upd .
qed

lemma analysis_results_upsert_updates:
  assumes "AnalysisResults_upsert kwargs w = Inr w'"
    and "find (conflicts [''sample_id'', ''analysis_parameter'', ''manufacturing_date'']
                 (proposed AnalysisResults w kwargs)) (pending w ''analysis_results'') = Some old"
  shows "committed w' = (pending w)(''analysis_results'' :=
           map (\<lambda>r. if r = old
                     then map (\<lambda>(c, v). (c, if c \<in> set [''sample_id'', ''manufacturing_date'',
                                  ''analysis_parameter'', ''analysis_value'']
                                             then getc (proposed AnalysisResults w kwargs) c else v)) old
                     else r)
             (pending w ''analysis_results''))"
proof -
  have tn: "tablename AnalysisResults = ''analysis_results''" by (simp add: AnalysisResults_def)
  have upd: "filter (\<lambda>c. c \<notin> set [''result_id'', ''created_at'']) (map cname (cols AnalysisResults)) = [''sample_id'', ''manufacturing_date'', ''analysis_parameter'', ''analysis_value'']"
    by (simp add: AnalysisResults_def col_def)
  show ?thesis
    using upsert_on_updates_db [OF assms(1) [unfolded AnalysisResults_upsert_def] assms(2) [folded tn]]
    unfolding tn upd .
qed

text \<open>
  C7, as the claim states it, fails twice. The raw-material store holds material M1 described
  as Corn; the loader writes M1 described as Maize, the way \<open>insert_to_db\<close> calls
  \<open>check_and_insert\<close>: the stored row keeps its old description. The finished-product
  store holds material M2 with old code OLD-2; \<open>Material.upsert\<close> writes M2 with the old
  code OLD-9, which no stored material carries: the description is replaced, the old code
  stays OLD-2.
\<close>

theorem existing_row_not_updated_counterexample:
  "committed (snd (check_and_insert Material (by_columns [''material_code''] material_m1_renamed)
       (vars material_m1_renamed) False world_m1)) ''materials'' = [material_m1]
   \<and> getc material_m1 ''material_description'' = CStr ''Corn''
   \<and> getc material_m1_renamed ''material_description'' = CStr ''Maize''
   \<and> find (\<lambda>r. getc r ''material_old_code'' = CStr ''OLD-9'') (pending world_ab ''materials'') = None
   \<and> \<not> isl (Material_upsert kwargs_b_recoded world_ab)
   \<and> committed (projr (Material_upsert kwargs_b_recoded world_ab)) ''materials''
       = [material_a,
          [(''material_id'', CUuid 1), (''material_code'', CStr ''M2''),
           (''material_description'', CStr ''Soy''), (''material_old_code'', CStr ''OLD-2'')]]"
  by code_simp

text \<open>
  C7, amended. For a write whose key is already stored. In the raw-material loader,
  \<open>check_and_insert\<close> with \<open>update_on_conflict\<close> left False (as every call of
  \<open>insert_to_db\<close> leaves it) changes no table whenever the proposed row collides with a
  stored row on a unique index. In the finished-product loader, every one of the five
  upserts that succeeds on a row found on its conflict target sets, in that row, every
  column of the table but the excluded ones to the incoming value, and leaves the excluded
  columns, every other row and every other table as they were. The excluded columns are
  \<open>material_id\<close> and \<open>material_old_code\<close> for Material (the old code always, claimed or
  not), \<open>plant_id\<close> for Plants, \<open>formula_id\<close> for Formula, \<open>sample_id\<close>,
  \<open>manufacturing_date\<close> and \<open>created_at\<close> for Samples, \<open>result_id\<close> and \<open>created_at\<close>
  for AnalysisResults.
\<close>

theorem existing_key_write:
  "(\<forall>m key old vals filters w.
      pending w = committed w \<and> key \<in> set (uniques m) \<and> old \<in> set (pending w (tablename m))
      \<and> conflicts key (proposed m w (filter (\<lambda>(k, v). k \<in> set (map cname (cols m))) vals)) old
      \<longrightarrow> committed (snd (check_and_insert m filters vals False w)) = committed w)
   \<and> (\<forall>kwargs w w' old.
        Material_upsert kwargs w = Inr w'
        \<and> find (conflicts [''material_code''] (proposed Material_fp w kwargs))
            (pending w ''materials'') = Some old
      \<longrightarrow> committed w' = (pending w)(''materials'' :=
            map (\<lambda>r. if r = old
                      then map (\<lambda>(c, v). (c, if c \<in> set [''material_code'', ''material_description'']
                                              then getc (proposed Material_fp w kwargs) c else v)) old
                      else r)
              (pending w ''materials'')))
   \<and> (\<forall>kwargs w w' old.
        Plants_upsert kwargs w = Inr w'
        \<and> find (conflicts [''plant''] (proposed Plants w kwargs)) (pending w ''plants'') = Some old
      \<longrightarrow> committed w' = (pending w)(''plants'' :=
            map (\<lambda>r. if r = old
                      then map (\<lambda>(c, v). (c, if c \<in> set [''plant'', ''plant_name'']
                                              then getc (proposed Plants w kwargs) c else v)) old
                      else r)
              (pending w ''plants'')))
   \<and> (\<forall>kwargs w w' old.
        Formula_upsert kwargs w = Inr w'
        \<and> find (conflicts [''formula_name''] (proposed Formula w kwargs))
            (pending w ''formula'') = Some old
      \<longrightarrow> committed w' = (pending w)(''formula'' :=
            map (\<lambda>r. if r = old
                      then map (\<lambda>(c, v). (c, if c \<in> set [''formula_name'']
                                              then getc (proposed Formula w kwargs) c else v)) old
                      else r)
              (pending w ''formula'')))
   \<and> (\<forall>kwargs w w' old.
        Samples_upsert kwargs w = Inr w'
        \<and> find (conflicts [''sample_id'', ''manufacturing_date''] (proposed Samples w kwargs))
            (pending w ''samples'') = Some old
      \<longrightarrow> committed w' = (pending w)(''samples'' :=
            map (\<lambda>r. if r = old
                      then map (\<lambda>(c, v). (c, if c \<in> set [''material_id'', ''plant_id'', ''formula_id'',
                                   ''sample_no'', ''inspection_lot'', ''truck_no'', ''pallet_no'',
                                   ''batch_no'', ''bin_no'', ''load_time'', ''validation_code'', ''remark'']
                                              then getc (proposed Samples w kwargs) c else v)) old
                      else r)
              (pending w ''samples'')))
   \<and> (\<forall>kwargs w w' old.
        AnalysisResults_upsert kwargs w = Inr w'
        \<and> find (conflicts [''sample_id'', ''analysis_parameter'', ''manufacturing_date'']
                  (proposed AnalysisResults w kwargs)) (pending w ''analysis_results'') = Some old
      \<longrightarrow> committed w' = (pending w)(''analysis_results'' :=
            map (\<lambda>r. if r = old
                      then map (\<lambda>(c, v). (c, if c \<in> set [''sample_id'', ''manufacturing_date'',
                                   ''analysis_parameter'', ''analysis_value'']
                                              then getc (proposed AnalysisResults w kwargs) c else v)) old
                      else r)
              (pending w ''analysis_results'')))"
proof (intro conjI allI impI)
  fix m key old vals filters w
  assume "pending w = committed w \<and> key \<in> set (uniques m) \<and> old \<in> set (pending w (tablename m))
      \<and> conflicts key (proposed m w (filter (\<lambda>(k, v). k \<in> set (map cname (cols m))) vals)) old"
  then show "committed (snd (check_and_insert m filters vals False w)) = committed w"
    using do_nothing_on_conflict by blast
qed (erule conjE, rule material_upsert_updates plants_upsert_updates_db formula_upsert_updates
      samples_upsert_updates analysis_results_upsert_updates, assumption, assumption)+

lemma world_m1_collision:
  "pending world_m1 = committed world_m1
   \<and> [''material_code''] \<in> set (uniques Material)
   \<and> material_m1 \<in> set (pending world_m1 (tablename Material))
   \<and> conflicts [''material_code'']
        (proposed Material world_m1
           (filter (\<lambda>(k, v). k \<in> set (map cname (cols Material))) (vars material_m1_renamed)))
        material_m1"
  by (simp add: world_m1_def Material_def col_def conflicts_def proposed_def vars_def key_of_def
      getc_def material_m1_def material_m1_renamed_def)

lemma world_ab_upsert:
  "Material_upsert kwargs_b world_ab = Inr (projr (Material_upsert kwargs_b world_ab))
   \<and> find (conflicts [''material_code''] (proposed Material_fp world_ab kwargs_b))
        (pending world_ab ''materials'') = Some material_b_stored"
proof -
  have "\<not> isl (Material_upsert kwargs_b world_ab)" by code_simp
  moreover have "find (conflicts [''material_code''] (proposed Material_fp world_ab kwargs_b))
        (pending world_ab ''materials'') = Some material_b_stored" by code_simp
  ultimately show ?thesis by (cases "Material_upsert kwargs_b world_ab") simp_all
qed

lemma world_ab_upserted:
  "committed (projr (Material_upsert kwargs_b world_ab)) ''materials''
     = [material_a,
        [(''material_id'', CUuid 1), (''material_code'', CStr ''M2''),
         (''material_description'', CStr ''Soy''), (''material_old_code'', CStr ''OLD-2'')]]"
  by code_simp

lemma world_p1_upsert:
  "Plants_upsert plant_p1_renamed world_p1 = Inr (projr (Plants_upsert plant_p1_renamed world_p1))
   \<and> find (conflicts [''plant''] (proposed Plants world_p1 plant_p1_renamed))
        (pending world_p1 ''plants'') = Some plant_p1"
proof -
  have "\<not> isl (Plants_upsert plant_p1_renamed world_p1)" by code_simp
  moreover have "find (conflicts [''plant''] (proposed Plants world_p1 plant_p1_renamed))
        (pending world_p1 ''plants'') = Some plant_p1" by code_simp
  ultimately show ?thesis by (cases "Plants_upsert plant_p1_renamed world_p1") simp_all
qed

lemma world_p1_upserted:
  "committed (projr (Plants_upsert plant_p1_renamed world_p1)) ''plants''
     = [[(''plant_id'', CUuid 0), (''plant'', CStr ''P1''), (''plant_name'', CStr ''North mill'')]]"
  by code_simp

lemma world_x1_upsert:
  "Formula_upsert formula_x1_again world_x1 = Inr (projr (Formula_upsert formula_x1_again world_x1))
   \<and> find (conflicts [''formula_name''] (proposed Formula world_x1 formula_x1_again))
        (pending world_x1 ''formula'') = Some formula_x1"
proof -
  have "\<not> isl (Formula_upsert formula_x1_again world_x1)" by code_simp
  moreover have "find (conflicts [''formula_name''] (proposed Formula world_x1 formula_x1_again))
        (pending world_x1 ''formula'') = Some formula_x1" by code_simp
  ultimately show ?thesis by (cases "Formula_upsert formula_x1_again world_x1") simp_all
qed

lemma world_x1_upserted:
  "committed (projr (Formula_upsert formula_x1_again world_x1)) ''formula'' = [formula_x1]"
  by code_simp

lemma world_f1_upsert:
  "Samples_upsert fp_sample_revised world_f1 = Inr (projr (Samples_upsert fp_sample_revised world_f1))
   \<and> find (conflicts [''sample_id'', ''manufacturing_date''] (proposed Samples world_f1 fp_sample_revised))
        (pending world_f1 ''samples'') = Some fp_sample_stored"
proof -
  have "\<not> isl (Samples_upsert fp_sample_revised world_f1)" by code_simp
  moreover have "find (conflicts [''sample_id'', ''manufacturing_date'']
        (proposed Samples world_f1 fp_sample_revised))
        (pending world_f1 ''samples'') = Some fp_sample_stored" by code_simp
  ultimately show ?thesis by (cases "Samples_upsert fp_sample_revised world_f1") simp_all
qed

lemma world_f1_upserted:
  "committed (projr (Samples_upsert fp_sample_revised world_f1)) ''samples''
     = [[(''sample_id'', CUuid 0), (''material_id'', CUuid 1), (''plant_id'', CUuid 2),
         (''formula_id'', CUuid 3), (''sample_no'', CStr ''F1''), (''inspection_lot'', CStr ''''),
         (''truck_no'', CStr ''''), (''pallet_no'', CStr ''''), (''batch_no'', CStr ''''),
         (''manufacturing_date'', CDate 100), (''bin_no'', CStr ''''), (''load_time'', CTime 9),
         (''validation_code'', CStr ''''), (''remark'', CStr ''retest''),
         (''created_at'', CTime 0)]]"
  by code_simp

lemma world_r1_upsert:
  "AnalysisResults_upsert result_r1_revised world_r1
     = Inr (projr (AnalysisResults_upsert result_r1_revised world_r1))
   \<and> find (conflicts [''sample_id'', ''analysis_parameter'', ''manufacturing_date'']
             (proposed AnalysisResults world_r1 result_r1_revised))
        (pending world_r1 ''analysis_results'') = Some result_r1"
proof -
  have "\<not> isl (AnalysisResults_upsert result_r1_revised world_r1)" by code_simp
  moreover have "find (conflicts [''sample_id'', ''analysis_parameter'', ''manufacturing_date'']
             (proposed AnalysisResults world_r1 result_r1_revised))
        (pending world_r1 ''analysis_results'') = Some result_r1" by code_simp
  ultimately show ?thesis
    by (cases "AnalysisResults_upsert result_r1_revised world_r1") simp_all
qed

lemma world_r1_upserted:
  "committed (projr (AnalysisResults_upsert result_r1_revised world_r1)) ''analysis_results''
     = [[(''result_id'', CUuid 8), (''sample_id'', CUuid 0),
         (''manufacturing_date'', CDate 100), (''analysis_parameter'', CStr ''protein''),
         (''analysis_value'', CNum 13), (''created_at'', CTime 0)]]"
  by code_simp

theorem existing_key_write_witness:
  "(pending world_m1 = committed world_m1
    \<and> [''material_code''] \<in> set (uniques Material)
    \<and> material_m1 \<in> set (pending world_m1 (tablename Material))
    \<and> conflicts [''material_code'']
         (proposed Material world_m1
            (filter (\<lambda>(k, v). k \<in> set (map cname (cols Material))) (vars material_m1_renamed)))
         material_m1)
   \<and> committed (snd (check_and_insert Material (by_columns [''material_code''] material_m1_renamed)
        (vars material_m1_renamed) False world_m1)) = committed world_m1
   \<and> (Material_upsert kwargs_b world_ab = Inr (projr (Material_upsert kwargs_b world_ab))
      \<and> find (conflicts [''material_code''] (proposed Material_fp world_ab kwargs_b))
           (pending world_ab ''materials'') = Some material_b_stored)
   \<and> committed (projr (Material_upsert kwargs_b world_ab)) = (pending world_ab)(''materials'' :=
        map (\<lambda>r. if r = material_b_stored
                  then map (\<lambda>(c, v). (c, if c \<in> set [''material_code'', ''material_description'']
                                          then getc (proposed Material_fp world_ab kwargs_b) c
                                          else v)) material_b_stored
                  else r)
          (pending world_ab ''materials''))
   \<and> committed (projr (Material_upsert kwargs_b world_ab)) ''materials''
       = [material_a,
          [(''material_id'', CUuid 1), (''material_code'', CStr ''M2''),
           (''material_description'', CStr ''Soy''), (''material_old_code'', CStr ''OLD-2'')]]
   \<and> (Plants_upsert plant_p1_renamed world_p1 = Inr (projr (Plants_upsert plant_p1_renamed world_p1))
      \<and> find (conflicts [''plant''] (proposed Plants world_p1 plant_p1_renamed))
           (pending world_p1 ''plants'') = Some plant_p1)
   \<and> committed (projr (Plants_upsert plant_p1_renamed world_p1)) = (pending world_p1)(''plants'' :=
        map (\<lambda>r. if r = plant_p1
                  then map (\<lambda>(c, v). (c, if c \<in> set [''plant'', ''plant_name'']
                                          then getc (proposed Plants world_p1 plant_p1_renamed) c
                                          else v)) plant_p1
                  else r)
          (pending world_p1 ''plants''))
   \<and> committed (projr (Plants_upsert plant_p1_renamed world_p1)) ''plants''
       = [[(''plant_id'', CUuid 0), (''plant'', CStr ''P1''), (''plant_name'', CStr ''North mill'')]]
   \<and> (Formula_upsert formula_x1_again world_x1
        = Inr (projr (Formula_upsert formula_x1_again world_x1))
      \<and> find (conflicts [''formula_name''] (proposed Formula world_x1 formula_x1_again))
           (pending world_x1 ''formula'') = Some formula_x1)
   \<and> committed (projr (Formula_upsert formula_x1_again world_x1)) = (pending world_x1)(''formula'' :=
        map (\<lambda>r. if r = formula_x1
                  then map (\<lambda>(c, v). (c, if c \<in> set [''formula_name'']
                                          then getc (proposed Formula world_x1 formula_x1_again) c
                                          else v)) formula_x1
                  else r)
          (pending world_x1 ''formula''))
   \<and> committed (projr (Formula_upsert formula_x1_again world_x1)) ''formula'' = [formula_x1]
   \<and> (Samples_upsert fp_sample_revised world_f1
        = Inr (projr (Samples_upsert fp_sample_revised world_f1))
      \<and> find (conflicts [''sample_id'', ''manufacturing_date'']
                (proposed Samples world_f1 fp_sample_revised))
           (pending world_f1 ''samples'') = Some fp_sample_stored)
   \<and> committed (projr (Samples_upsert fp_sample_revised world_f1)) = (pending world_f1)(''samples'' :=
        map (\<lambda>r. if r = fp_sample_stored
                  then map (\<lambda>(c, v). (c, if c \<in> set [''material_id'', ''plant_id'', ''formula_id'',
                               ''sample_no'', ''inspection_lot'', ''truck_no'', ''pallet_no'',
                               ''batch_no'', ''bin_no'', ''load_time'', ''validation_code'', ''remark'']
                                          then getc (proposed Samples world_f1 fp_sample_revised) c
                                          else v)) fp_sample_stored
                  else r)
          (pending world_f1 ''samples''))
   \<and> committed (projr (Samples_upsert fp_sample_revised world_f1)) ''samples''
       = [[(''sample_id'', CUuid 0), (''material_id'', CUuid 1), (''plant_id'', CUuid 2),
           (''formula_id'', CUuid 3), (''sample_no'', CStr ''F1''), (''inspection_lot'', CStr ''''),
           (''truck_no'', CStr ''''), (''pallet_no'', CStr ''''), (''batch_no'', CStr ''''),
           (''manufacturing_date'', CDate 100), (''bin_no'', CStr ''''), (''load_time'', CTime 9),
           (''validation_code'', CStr ''''), (''remark'', CStr ''retest''),
           (''created_at'', CTime 0)]]
   \<and> (AnalysisResults_upsert result_r1_revised world_r1
        = Inr (projr (AnalysisResults_upsert result_r1_revised world_r1))
      \<and> find (conflicts [''sample_id'', ''analysis_parameter'', ''manufacturing_date'']
                (proposed AnalysisResults world_r1 result_r1_revised))
           (pending world_r1 ''analysis_results'') = Some result_r1)
   \<and> committed (projr (AnalysisResults_upsert result_r1_revised world_r1))
       = (pending world_r1)(''analysis_results'' :=
        map (\<lambda>r. if r = result_r1
                  then map (\<lambda>(c, v). (c, if c \<in> set [''sample_id'', ''manufacturing_date'',
                               ''analysis_parameter'', ''analysis_value'']
                                          then getc (proposed AnalysisResults world_r1 result_r1_revised) c
                                          else v)) result_r1
                  else r)
          (pending world_r1 ''analysis_results''))
   \<and> committed (projr (AnalysisResults_upsert result_r1_revised world_r1)) ''analysis_results''
       = [[(''result_id'', CUuid 8), (''sample_id'', CUuid 0),
           (''manufacturing_date'', CDate 100), (''analysis_parameter'', CStr ''protein''),
           (''analysis_value'', CNum 13), (''created_at'', CTime 0)]]"
proof -
  note rm = existing_key_write [THEN conjunct1, rule_format, OF world_m1_collision,
      of "by_columns [''material_code''] material_m1_renamed"]
  note ma = existing_key_write [THEN conjunct2, THEN conjunct1, rule_format, OF world_ab_upsert]
  note pl = existing_key_write [THEN conjunct2, THEN conjunct2, THEN conjunct1, rule_format,
      OF world_p1_upsert]
  note fo = existing_key_write [THEN conjunct2, THEN conjunct2, THEN conjunct2, THEN conjunct1,
      rule_format, OF world_x1_upsert]
  note sa = existing_key_write [THEN conjunct2, THEN conjunct2, THEN conjunct2, THEN conjunct2,
      THEN conjunct1, rule_format, OF world_f1_upsert]
  note re = existing_key_write [THEN conjunct2, THEN conjunct2, THEN conjunct2, THEN conjunct2,
      THEN conjunct2, rule_format, OF world_r1_upsert]
  show ?thesis
    by (intro conjI world_m1_collision rm world_ab_upsert ma world_ab_upserted
        world_p1_upsert pl world_p1_upserted world_x1_upsert fo world_x1_upserted
        world_f1_upsert sa world_f1_upserted world_r1_upsert re world_r1_upserted)
qed

section \<open>C6: the old-code conflict rule of Material.upsert\<close>

lemma getc_map_values:
  "getc (map (\<lambda>(c, v). (c, if c \<in> S then g c else v)) r) k = (if k \<in> S \<and> k \<in> fst ` set r then g k else getc r k)"
  unfolding getc_def by (induction r) (auto split: option.splits)

lemma getc_map_other:
  "k \<notin> S \<Longrightarrow> getc (map (\<lambda>(c, v). (c, if c \<in> S then g c else v)) r) k = getc r k"
  by (simp add: getc_map_values)

lemma map_getc_replace:
  "getc new k = getc old k \<Longrightarrow>
   map (\<lambda>r. getc r k) (map (\<lambda>r. if r = old then new else r) rs) = map (\<lambda>r. getc r k) rs"
  by (induction rs) auto

lemma proposed_material_code:
  "getc (proposed Material_fp w k) ''material_code'' = (case map_of k ''material_code'' of Some v \<Rightarrow> v | None \<Rightarrow> CNull)"
  by (simp add: proposed_def Material_fp_def col_def getc_def split: option.splits)

lemma proposed_material_old_code:
  "getc (proposed Material_fp w k) ''material_old_code'' = (case map_of k ''material_old_code'' of Some v \<Rightarrow> v | None \<Rightarrow> CNull)"
  by (simp add: proposed_def Material_fp_def col_def getc_def split: option.splits)

text \<open>What a successful upsert of the Material class leaves.\<close>

lemma material_upsert_on_result:
  assumes "upsert_on Material_fp [''material_code''] [''material_id'', ''material_old_code''] k w = Inr w'"
  shows "(case find (conflicts [''material_code''] (proposed Material_fp w k)) (pending w ''materials'') of
            Some old \<Rightarrow> committed w' ''materials'' =
               map (\<lambda>r. if r = old
                         then map (\<lambda>(c, v). (c, if c \<in> set [''material_code'', ''material_description'']
                                  then getc (proposed Material_fp w k) c else v)) old
                         else r) (pending w ''materials'')
          | None \<Rightarrow> committed w' ''materials'' = pending w ''materials'' @ [proposed Material_fp w k])
         \<and> getc (proposed Material_fp w k) ''material_code'' \<noteq> CNull"
  using assms
  unfolding upsert_on_def execute_def update_row_def store_row_def
  apply (simp add: Let_def commit_def split: sum.splits if_splits option.splits)
   apply (auto simp: Material_fp_def col_def not_null_ok_def)
  done


lemma material_upsert_is_upsert_on:
  assumes "A \<in> set (pending w ''materials'')"
    and "getc A ''material_old_code'' = CStr X" and "X \<noteq> []"
    and "map_of kwargs ''material_old_code'' = Some (CStr X)"
    and "map_of kwargs ''material_code'' = Some codeB"
  shows "\<exists>k. Material_upsert kwargs w
               = upsert_on Material_fp [''material_code''] [''material_id'', ''material_old_code''] k w
             \<and> map_of k ''material_code'' = Some codeB
             \<and> (k = pop ''material_old_code'' kwargs
                 \<or> k = kwargs \<and> list_ex (\<lambda>r. getc r ''material_code'' = codeB) (pending w ''materials''))"
proof -
  let ?P = "\<lambda>r. Some (getc r ''material_old_code'') = Some (CStr X)"
  have "?P A" using assms(2) by simp
  then obtain existing where ex: "find ?P (pending w ''materials'') = Some existing"
    using assms(1) by (cases "find ?P (pending w ''materials'')") (auto simp: find_None_iff)
  then have mem: "existing \<in> set (pending w ''materials'')"
    by (auto simp: find_Some_iff)
  have tr: "truthy (Some (CStr X))" using assms(3) by (simp add: truthy_def)
  have tn: "tablename Material_fp = ''materials''" by (simp add: Material_fp_def)
  show ?thesis
  proof (cases "getc existing ''material_code'' = codeB")
    case True
    then have "list_ex (\<lambda>r. getc r ''material_code'' = codeB) (pending w ''materials'')"
      using mem by (auto simp: list_ex_iff)
    moreover have "Material_upsert kwargs w
               = upsert_on Material_fp [''material_code''] [''material_id'', ''material_old_code''] kwargs w"
      using True ex tr assms(4,5) by (simp add: Material_upsert_def query_all_def tn)
    ultimately show ?thesis using assms(5) by blast
  next
    case False
    have "Material_upsert kwargs w
               = upsert_on Material_fp [''material_code''] [''material_id'', ''material_old_code'']
                   (pop ''material_old_code'' kwargs) w"
      using False ex tr assms(4,5) by (simp add: Material_upsert_def query_all_def tn)
    moreover have "map_of (pop ''material_old_code'' kwargs) ''material_code'' = Some codeB"
      using assms(5) by (simp add: map_of_pop)
    ultimately show ?thesis by blast
  qed
qed

lemma material_upsert_drops_old_code:
  assumes A: "A \<in> set (pending w ''materials'')"
    and oldA: "getc A ''material_old_code'' = CStr X" and X: "X \<noteq> []"
    and kw_old: "map_of kwargs ''material_old_code'' = Some (CStr X)"
    and kw_code: "map_of kwargs ''material_code'' = Some codeB"
    and diff: "getc A ''material_code'' \<noteq> codeB"
    and ok: "Material_upsert kwargs w = Inr w'"
  shows "A \<in> set (committed w' ''materials'')
     \<and> (if list_ex (\<lambda>r. getc r ''material_code'' = codeB) (pending w ''materials'')
        then map (\<lambda>r. getc r ''material_old_code'') (committed w' ''materials'')
               = map (\<lambda>r. getc r ''material_old_code'') (pending w ''materials'')
        else \<exists>b. committed w' ''materials'' = pending w ''materials'' @ [b]
                 \<and> getc b ''material_code'' = codeB \<and> getc b ''material_old_code'' = CNull)"
proof -
  obtain k where up: "upsert_on Material_fp [''material_code''] [''material_id'', ''material_old_code''] k w = Inr w'"
    and kc: "map_of k ''material_code'' = Some codeB"
    and kk: "k = pop ''material_old_code'' kwargs
                 \<or> k = kwargs \<and> list_ex (\<lambda>r. getc r ''material_code'' = codeB) (pending w ''materials'')"
    using material_upsert_is_upsert_on [OF A oldA X kw_old kw_code] ok by metis
  let ?p = "proposed Material_fp w k"
  let ?rows = "pending w ''materials''"
  have pc: "getc ?p ''material_code'' = codeB"
    using kc by (simp add: proposed_material_code)
  note res = material_upsert_on_result [OF up]
  have nn: "codeB \<noteq> CNull" using res pc by simp
  have conf: "\<And>r. conflicts [''material_code''] ?p r \<longleftrightarrow> getc r ''material_code'' = codeB"
    using pc nn by (auto simp: conflicts_def key_of_def)
  show ?thesis
  proof (cases "find (conflicts [''material_code''] ?p) ?rows")
    case None
    then have new: "\<not> list_ex (\<lambda>r. getc r ''material_code'' = codeB) ?rows"
      by (auto simp: find_None_iff list_ex_iff conf)
    then have "k = pop ''material_old_code'' kwargs" using kk by blast
    then have "getc ?p ''material_old_code'' = CNull"
      by (simp add: proposed_material_old_code map_of_pop)
    moreover have "committed w' ''materials'' = ?rows @ [?p]"
      using res None by simp
    ultimately show ?thesis using new pc A by auto
  next
    case (Some old)
    then have oldmem: "old \<in> set ?rows" and oldc: "getc old ''material_code'' = codeB"
      by (auto simp: find_Some_iff conf)
    then have stored: "list_ex (\<lambda>r. getc r ''material_code'' = codeB) ?rows"
      by (auto simp: list_ex_iff)
    let ?new = "map (\<lambda>(c, v). (c, if c \<in> set [''material_code'', ''material_description'']
                                  then getc ?p c else v)) old"
    have c: "committed w' ''materials'' = map (\<lambda>r. if r = old then ?new else r) ?rows"
      using res Some by simp
    have "A \<noteq> old" using oldc diff by auto
    then have "A \<in> set (committed w' ''materials'')"
      using A c by auto
    moreover have "getc ?new ''material_old_code'' = getc old ''material_old_code''"
      by (rule getc_map_other) simp
    then have "map (\<lambda>r. getc r ''material_old_code'') (committed w' ''materials'')
               = map (\<lambda>r. getc r ''material_old_code'') ?rows"
      unfolding c by (rule map_getc_replace)
    ultimately show ?thesis using stored by simp
  qed
qed

text \<open>
  C6, as the claim states it, fails for a material B that is already stored. The store
  holds A = M1 with old code OLD-1 and B = M2 with old code OLD-2; M2 is upserted with old
  code OLD-1. The upsert succeeds, A is unchanged, and B's row still carries OLD-2: it was
  not written with a null old_code.
\<close>

theorem old_code_conflict_counterexample:
  "\<not> isl (Material_upsert kwargs_b world_ab)
   \<and> committed (projr (Material_upsert kwargs_b world_ab)) ''materials''
       = [material_a,
          [(''material_id'', CUuid 1), (''material_code'', CStr ''M2''),
           (''material_description'', CStr ''Soy''), (''material_old_code'', CStr ''OLD-2'')]]"
  by code_simp

text \<open>
  C6, amended. Let a material A be stored with a non-empty old_code X, and let B be
  upserted with a material_code different from A's and the same old_code X. If the upsert
  succeeds, A's row is still in the store unchanged, and no old_code is taken from this
  write: when no stored material has B's code, one row is appended, B's row, with
  old_code = null; when B's code is already stored, every stored old_code is what it was
  before.
\<close>

theorem old_code_conflict:
  assumes "A \<in> set (pending w ''materials'')"
    and "getc A ''material_old_code'' = CStr X" and "X \<noteq> []"
    and "map_of kwargs ''material_old_code'' = Some (CStr X)"
    and "map_of kwargs ''material_code'' = Some codeB"
    and "getc A ''material_code'' \<noteq> codeB"
    and "Material_upsert kwargs w = Inr w'"
  shows "A \<in> set (committed w' ''materials'')
     \<and> (if list_ex (\<lambda>r. getc r ''material_code'' = codeB) (pending w ''materials'')
        then map (\<lambda>r. getc r ''material_old_code'') (committed w' ''materials'')
               = map (\<lambda>r. getc r ''material_old_code'') (pending w ''materials'')
        else \<exists>b. committed w' ''materials'' = pending w ''materials'' @ [b]
                 \<and> getc b ''material_code'' = codeB \<and> getc b ''material_old_code'' = CNull)"
  using material_upsert_drops_old_code [OF assms] .

lemma world_a_upsert:
  "\<not> isl (Material_upsert kwargs_b world_a)
   \<and> committed (projr (Material_upsert kwargs_b world_a)) ''materials''
       = [material_a,
          [(''material_id'', CUuid 7), (''material_code'', CStr ''M2''),
           (''material_description'', CStr ''Soy''), (''material_old_code'', CNull)]]"
  by code_simp

lemma world_a_setting:
  "material_a \<in> set (pending world_a ''materials'')
   \<and> getc material_a ''material_old_code'' = CStr ''OLD-1''
   \<and> map_of kwargs_b ''material_old_code'' = Some (CStr ''OLD-1'')
   \<and> map_of kwargs_b ''material_code'' = Some (CStr ''M2'')
   \<and> getc material_a ''material_code'' \<noteq> CStr ''M2''"
  by (simp add: world_a_def material_a_def kwargs_b_def getc_def)

theorem old_code_conflict_witness:
  "material_a \<in> set (pending world_a ''materials'')
   \<and> getc material_a ''material_old_code'' = CStr ''OLD-1''
   \<and> map_of kwargs_b ''material_old_code'' = Some (CStr ''OLD-1'')
   \<and> map_of kwargs_b ''material_code'' = Some (CStr ''M2'')
   \<and> getc material_a ''material_code'' \<noteq> CStr ''M2''
   \<and> Material_upsert kwargs_b world_a = Inr (projr (Material_upsert kwargs_b world_a))
   \<and> material_a \<in> set (committed (projr (Material_upsert kwargs_b world_a)) ''materials'')
   \<and> (if list_ex (\<lambda>r. getc r ''material_code'' = CStr ''M2'') (pending world_a ''materials'')
       then map (\<lambda>r. getc r ''material_old_code'')
              (committed (projr (Material_upsert kwargs_b world_a)) ''materials'')
            = map (\<lambda>r. getc r ''material_old_code'') (pending world_a ''materials'')
       else \<exists>b. committed (projr (Material_upsert kwargs_b world_a)) ''materials''
                   = pending world_a ''materials'' @ [b]
               \<and> getc b ''material_code'' = CStr ''M2'' \<and> getc b ''material_old_code'' = CNull)
   \<and> committed (projr (Material_upsert kwargs_b world_a)) ''materials''
       = [material_a,
          [(''material_id'', CUuid 7), (''material_code'', CStr ''M2''),
           (''material_description'', CStr ''Soy''), (''material_old_code'', CNull)]]"
proof -
  have ok: "Material_upsert kwargs_b world_a = Inr (projr (Material_upsert kwargs_b world_a))"
    using world_a_upsert by (cases "Material_upsert kwargs_b world_a") simp_all
  have s: "material_a \<in> set (pending world_a ''materials'')"
    and o: "getc material_a ''material_old_code'' = CStr ''OLD-1''"
    and ko: "map_of kwargs_b ''material_old_code'' = Some (CStr ''OLD-1'')"
    and kc: "map_of kwargs_b ''material_code'' = Some (CStr ''M2'')"
    and d: "getc material_a ''material_code'' \<noteq> CStr ''M2''"
    using world_a_setting by blast+
  have x: "''OLD-1'' \<noteq> []" by simp
  show ?thesis
    using old_code_conflict [OF s o x ko kc d ok] world_a_setting world_a_upsert ok
    by blast
qed

section \<open>C5: rows whose material is not resolved\<close>

lemma drop_duplicates_seen_filter:
  assumes "\<And>x. P x = Q (f x)"
  shows "filter P (drop_duplicates_seen f seen xs)
           = drop_duplicates_seen f (filter Q seen) (filter P xs)"
  by (induction xs arbitrary: seen) (auto simp: assms)

lemma drop_duplicates_filter:
  assumes "\<And>x. P x = Q (f x)"
  shows "filter P (drop_duplicates f xs) = drop_duplicates f (filter P xs)"
  using drop_duplicates_seen_filter [of P Q f "[]" xs, OF assms] by (simp add: drop_duplicates_def)

lemma prepare_samples_skips_unresolved:
  assumes "of_text (material_code r) \<notin> dom materials_map"
  shows "prepare_samples (data\<lparr>rows := xs @ r # ys\<rparr>) materials_map plants_map vendors_map n
           = prepare_samples (data\<lparr>rows := xs @ ys\<rparr>) materials_map plants_map vendors_map n"
proof -
  let ?f = "\<lambda>r. (sample_no r, material_code r, plant r, vendor_code r,
                  inspection_lot r, batch_no r, material_doc r, valuation_date r)"
  let ?P = "sample_resolved materials_map plants_map vendors_map"
  let ?Q = "\<lambda>(s, m, p, v, rest). of_text m \<in> dom materials_map \<and> of_text p \<in> dom plants_map
                \<and> of_text v \<in> dom vendors_map"
  have resp: "\<And>x. ?P x = ?Q (?f x)" by (simp add: sample_resolved_def)
  have "\<not> ?P r" using assms by (simp add: sample_resolved_def)
  then have "filter ?P (xs @ r # ys) = filter ?P (xs @ ys)" by simp
  then have "filter ?P (drop_duplicates ?f (xs @ r # ys)) = filter ?P (drop_duplicates ?f (xs @ ys))"
    using drop_duplicates_filter [of ?P ?Q ?f, OF resp] by simp
  then show ?thesis
    by (simp add: prepare_samples_def has_columns_def Let_def)
qed

lemma results_chain:
  "filter (\<lambda>l. py_str (l_sample_no l) \<in> dom sm)
     (filter (\<lambda>l. analysis_value l \<noteq> CNull)
        (map (\<lambda>l. l\<lparr>analysis_value := to_numeric parse (analysis_value l)\<rparr>) (filter pre ls)))
   = map (\<lambda>l. l\<lparr>analysis_value := to_numeric parse (analysis_value l)\<rparr>)
       (filter (\<lambda>l. pre l \<and> to_numeric parse (analysis_value l) \<noteq> CNull
                  \<and> py_str (l_sample_no l) \<in> dom sm) ls)"
  by (induction ls) auto

lemma melt_filter_skip:
  assumes "\<And>c. \<not> R \<lparr>l_sample_no = sample_no r, l_date = valuation_date r,
                         analysis_parameter = c, analysis_value = analysis r c\<rparr>"
  shows "filter R (melt cs (xs @ r # ys)) = filter R (melt cs (xs @ ys))"
  by (induction cs) (simp_all add: melt_def assms)

lemma prepare_analysis_results_skips_unresolved:
  assumes "py_str (sample_no r) \<notin> dom samples_map"
  shows "prepare_analysis_results parse (data\<lparr>rows := xs @ r # ys\<rparr>) samples_map n
           = prepare_analysis_results parse (data\<lparr>rows := xs @ ys\<rparr>) samples_map n"
  unfolding prepare_analysis_results_def Let_def results_chain
  by (simp add: has_columns_def melt_filter_skip [where r = r] assms)

lemma relisted_dimensions:
  "map (\<lambda>m. getc m ''material_code'')
       (committed (snd (insert_to_db no_parse frame_relisted
           (snd (insert_to_db no_parse frame_s1 empty_world)))) ''materials'')
     = [CStr ''M1'']
   \<and> map (\<lambda>s. (getc s ''sample_id'', getc s ''sample_no'', getc s ''valuation_date''))
       (committed (snd (insert_to_db no_parse frame_relisted
           (snd (insert_to_db no_parse frame_s1 empty_world)))) ''samples'')
     = [(CUuid 3, CStr ''S1'', CDate 100)]"
  by code_simp

lemma relisted_results:
  "map (\<lambda>a. (getc a ''sample_id'', getc a ''analysis_parameter'', getc a ''analysis_value'',
              getc a ''valuation_date''))
       (committed (snd (insert_to_db no_parse frame_relisted
           (snd (insert_to_db no_parse frame_s1 empty_world)))) ''analysis_results'')
     = [(CUuid 3, CStr ''moisture'', CNum 5, CDate 100),
        (CUuid 3, CStr ''moisture'', CNum 7, CDate 100)]"
  by code_simp

text \<open>
  C5, as the claim states it, fails. A first file stores sample S1 of day 100 under material
  M1 with moisture 5. A later file lists S1 of day 100 under material M2, which cannot be
  stored, with moisture 7. After the later run the materials are still M1 alone, so the
  row's material_code is absent from the Material mapping and no Sample is built from the
  row; yet its analysis result (moisture 7) is produced and stored, under the stored sample
  S1 of day 100.
\<close>

theorem unresolved_material_counterexample:
  "map (\<lambda>m. getc m ''material_code'')
       (committed (snd (insert_to_db no_parse frame_relisted
           (snd (insert_to_db no_parse frame_s1 empty_world)))) ''materials'')
     = [CStr ''M1'']
   \<and> map (\<lambda>s. (getc s ''sample_id'', getc s ''sample_no'', getc s ''valuation_date''))
       (committed (snd (insert_to_db no_parse frame_relisted
           (snd (insert_to_db no_parse frame_s1 empty_world)))) ''samples'')
     = [(CUuid 3, CStr ''S1'', CDate 100)]
   \<and> map (\<lambda>a. (getc a ''sample_id'', getc a ''analysis_parameter'', getc a ''analysis_value'',
              getc a ''valuation_date''))
       (committed (snd (insert_to_db no_parse frame_relisted
           (snd (insert_to_db no_parse frame_s1 empty_world)))) ''analysis_results'')
     = [(CUuid 3, CStr ''moisture'', CNum 5, CDate 100),
        (CUuid 3, CStr ''moisture'', CNum 7, CDate 100)]"
  using relisted_dimensions relisted_results by simp

lemma dict_of_last:
  "dict_of (map (\<lambda>x. (k x, v x)) xs) s
     = (case filter (\<lambda>x. k x = s) xs of [] \<Rightarrow> None | y # ys \<Rightarrow> Some (v (last (y # ys))))"
proof (induction xs rule: rev_induct)
  case Nil
  show ?case by (simp add: dict_of_def)
next
  case (snoc x xs)
  then show ?case
    by (auto simp: dict_of_def split: list.splits)
qed

lemma samples_map_of_dom:
  "(s \<in> dom (samples_map_of w))
     = list_ex (\<lambda>row. str_of_cell (getc row ''sample_no'') = s) (query_all w Sample)"
proof -
  let ?P = "\<lambda>row. str_of_cell (getc row ''sample_no'') = s"
  have m: "samples_map_of w s
     = (case filter ?P (query_all w Sample) of
          [] \<Rightarrow> None | y # ys \<Rightarrow> Some (getc (last (y # ys)) ''sample_id''))"
    unfolding samples_map_of_def by (rule dict_of_last)
  show ?thesis
  proof (cases "filter ?P (query_all w Sample)")
    case Nil
    then have "\<not> list_ex ?P (query_all w Sample)"
      by (simp add: filter_empty_conv list_ex_iff)
    then show ?thesis using m Nil by (simp add: domIff)
  next
    case (Cons y ys)
    then have "y \<in> set (filter ?P (query_all w Sample))" by simp
    then have "list_ex ?P (query_all w Sample)" by (auto simp: list_ex_iff)
    then show ?thesis using m Cons by (simp add: domIff)
  qed
qed

text \<open>
  C5, amended. A row whose material_code is absent from the Material mapping is left out of
  the Sample output, and the batch is processed as if the row were not in it (nothing
  aborts). A row whose sample number is no key of the samples mapping yields no
  AnalysisResult, and the results of the other rows are produced as if the row were not in
  the batch; the samples mapping has as keys exactly the sample numbers of the stored
  samples.
\<close>

theorem unresolved_rows_are_skipped:
  "(of_text (material_code r) \<notin> dom materials_map
      \<longrightarrow> prepare_samples (data\<lparr>rows := xs @ r # ys\<rparr>) materials_map plants_map vendors_map n
            = prepare_samples (data\<lparr>rows := xs @ ys\<rparr>) materials_map plants_map vendors_map n)
   \<and> (py_str (sample_no r) \<notin> dom samples_map
      \<longrightarrow> prepare_analysis_results parse (data\<lparr>rows := xs @ r # ys\<rparr>) samples_map n'
            = prepare_analysis_results parse (data\<lparr>rows := xs @ ys\<rparr>) samples_map n')
   \<and> (py_str (sample_no r) \<in> dom (samples_map_of w))
       = list_ex (\<lambda>s. str_of_cell (getc s ''sample_no'') = py_str (sample_no r)) (query_all w Sample)"
  using prepare_samples_skips_unresolved prepare_analysis_results_skips_unresolved
    samples_map_of_dom
  by blast

lemma three_setting:
  "of_text (material_code row_s2_unregistered) \<notin> dom [CStr ''M1'' \<mapsto> CUuid 0]
   \<and> py_str (sample_no row_s2_unregistered) \<notin> dom [''S1'' \<mapsto> CUuid 3, ''S3'' \<mapsto> CUuid 4]"
  by (simp add: row_s2_unregistered_def row_s1_def of_text_def py_str_def)

lemma three_samples:
  "map (\<lambda>s. (getc s ''sample_id'', getc s ''sample_no'', getc s ''material_id''))
     (projr (prepare_samples (frame_three\<lparr>rows := [row_s1] @ [row_s3]\<rparr>)
        [CStr ''M1'' \<mapsto> CUuid 0] [CStr ''P1'' \<mapsto> CUuid 1] [CStr ''V1'' \<mapsto> CUuid 2] 3))
     = [(CUuid 3, CStr ''S1'', CUuid 0), (CUuid 4, CStr ''S3'', CUuid 0)]"
  by code_simp

lemma three_results:
  "prepare_analysis_results no_parse (frame_three\<lparr>rows := [row_s1] @ [row_s3]\<rparr>)
       [''S1'' \<mapsto> CUuid 3, ''S3'' \<mapsto> CUuid 4] 5
     = Inr [[(''result_id'', CUuid 5), (''sample_id'', CUuid 3),
             (''analysis_parameter'', CStr ''moisture''), (''analysis_value'', CNum 5),
             (''valuation_date'', CDate 100)],
            [(''result_id'', CUuid 6), (''sample_id'', CUuid 4),
             (''analysis_parameter'', CStr ''moisture''), (''analysis_value'', CNum 9),
             (''valuation_date'', CDate 100)]]"
  by code_simp

lemma three_pipeline:
  "map (\<lambda>s. (getc s ''sample_id'', getc s ''sample_no''))
       (committed (snd (insert_to_db no_parse frame_three empty_world)) ''samples'')
     = [(CUuid 4, CStr ''S1''), (CUuid 5, CStr ''S3'')]
   \<and> map (\<lambda>a. (getc a ''sample_id'', getc a ''analysis_value''))
       (committed (snd (insert_to_db no_parse frame_three empty_world)) ''analysis_results'')
     = [(CUuid 4, CNum 5), (CUuid 5, CNum 9)]
   \<and> list_ex (\<lambda>s. str_of_cell (getc s ''sample_no'') = py_str (sample_no row_s2_unregistered))
        (query_all (snd (insert_to_db no_parse frame_three empty_world)) Sample) = False"
  by code_simp

theorem unresolved_rows_are_skipped_witness:
  "of_text (material_code row_s2_unregistered) \<notin> dom [CStr ''M1'' \<mapsto> CUuid 0]
   \<and> py_str (sample_no row_s2_unregistered) \<notin> dom [''S1'' \<mapsto> CUuid 3, ''S3'' \<mapsto> CUuid 4]
   \<and> prepare_samples (frame_three\<lparr>rows := [row_s1] @ row_s2_unregistered # [row_s3]\<rparr>)
        [CStr ''M1'' \<mapsto> CUuid 0] [CStr ''P1'' \<mapsto> CUuid 1] [CStr ''V1'' \<mapsto> CUuid 2] 3
       = prepare_samples (frame_three\<lparr>rows := [row_s1] @ [row_s3]\<rparr>)
        [CStr ''M1'' \<mapsto> CUuid 0] [CStr ''P1'' \<mapsto> CUuid 1] [CStr ''V1'' \<mapsto> CUuid 2] 3
   \<and> map (\<lambda>s. (getc s ''sample_id'', getc s ''sample_no'', getc s ''material_id''))
        (projr (prepare_samples (frame_three\<lparr>rows := [row_s1] @ row_s2_unregistered # [row_s3]\<rparr>)
           [CStr ''M1'' \<mapsto> CUuid 0] [CStr ''P1'' \<mapsto> CUuid 1] [CStr ''V1'' \<mapsto> CUuid 2] 3))
       = [(CUuid 3, CStr ''S1'', CUuid 0), (CUuid 4, CStr ''S3'', CUuid 0)]
   \<and> prepare_analysis_results no_parse
        (frame_three\<lparr>rows := [row_s1] @ row_s2_unregistered # [row_s3]\<rparr>)
        [''S1'' \<mapsto> CUuid 3, ''S3'' \<mapsto> CUuid 4] 5
       = Inr [[(''result_id'', CUuid 5), (''sample_id'', CUuid 3),
               (''analysis_parameter'', CStr ''moisture''), (''analysis_value'', CNum 5),
               (''valuation_date'', CDate 100)],
              [(''result_id'', CUuid 6), (''sample_id'', CUuid 4),
               (''analysis_parameter'', CStr ''moisture''), (''analysis_value'', CNum 9),
               (''valuation_date'', CDate 100)]]
   \<and> (py_str (sample_no row_s2_unregistered)
          \<in> dom (samples_map_of (snd (insert_to_db no_parse frame_three empty_world)))) = False
   \<and> map (\<lambda>a. (getc a ''sample_id'', getc a ''analysis_value''))
       (committed (snd (insert_to_db no_parse frame_three empty_world)) ''analysis_results'')
     = [(CUuid 4, CNum 5), (CUuid 5, CNum 9)]"
proof -
  note T = unresolved_rows_are_skipped [where r = row_s2_unregistered and materials_map = "[CStr ''M1'' \<mapsto> CUuid 0]"
         and samples_map = "[''S1'' \<mapsto> CUuid 3, ''S3'' \<mapsto> CUuid 4]" and data = frame_three
         and xs = "[row_s1]" and ys = "[row_s3]" and plants_map = "[CStr ''P1'' \<mapsto> CUuid 1]"
         and vendors_map = "[CStr ''V1'' \<mapsto> CUuid 2]" and n = 3 and n' = 5 and parse = no_parse
         and w = "snd (insert_to_db no_parse frame_three empty_world)"]
  have a: "prepare_samples (frame_three\<lparr>rows := [row_s1] @ row_s2_unregistered # [row_s3]\<rparr>)
        [CStr ''M1'' \<mapsto> CUuid 0] [CStr ''P1'' \<mapsto> CUuid 1] [CStr ''V1'' \<mapsto> CUuid 2] 3
       = prepare_samples (frame_three\<lparr>rows := [row_s1] @ [row_s3]\<rparr>)
        [CStr ''M1'' \<mapsto> CUuid 0] [CStr ''P1'' \<mapsto> CUuid 1] [CStr ''V1'' \<mapsto> CUuid 2] 3"
    using T three_setting by blast
  have b: "prepare_analysis_results no_parse
        (frame_three\<lparr>rows := [row_s1] @ row_s2_unregistered # [row_s3]\<rparr>)
        [''S1'' \<mapsto> CUuid 3, ''S3'' \<mapsto> CUuid 4] 5
       = prepare_analysis_results no_parse (frame_three\<lparr>rows := [row_s1] @ [row_s3]\<rparr>)
        [''S1'' \<mapsto> CUuid 3, ''S3'' \<mapsto> CUuid 4] 5"
    using T three_setting by blast
  have c: "(py_str (sample_no row_s2_unregistered)
          \<in> dom (samples_map_of (snd (insert_to_db no_parse frame_three empty_world)))) = False"
    using T three_pipeline by blast
  show ?thesis
    using three_setting a b c three_samples three_results three_pipeline by simp
qed

section \<open>C8: how many analysis results a row yields\<close>












section \<open>C4: which sample an analysis result refers to\<close>

lemma recurring_raw_material:
  "map (\<lambda>s. (getc s ''sample_id'', getc s ''sample_no'', getc s ''valuation_date''))
       (committed (snd (insert_to_db no_parse frame_recurring empty_world)) ''samples'')
     = [(CUuid 3, CStr ''S1'', CDate 100), (CUuid 4, CStr ''S1'', CDate 200)]
   \<and> map (\<lambda>a. (getc a ''sample_id'', getc a ''analysis_value'', getc a ''valuation_date''))
       (committed (snd (insert_to_db no_parse frame_recurring empty_world)) ''analysis_results'')
     = [(CUuid 4, CNum 5, CDate 100), (CUuid 4, CNum 7, CDate 200)]"
  by code_simp

lemma recurring_finished_product_store:
  "map (\<lambda>s. (getc s ''sample_id'', getc s ''sample_no'', getc s ''manufacturing_date''))
       (query_all world_f2 Samples)
     = [(CUuid 0, CStr ''F1'', CDate 100), (CUuid 4, CStr ''F1'', CDate 200)]"
  by code_simp

lemma recurring_finished_product_results:
  "prepare_analysis_results_fp no_parse fp_frame_recurring (samples_map_fp world_f2) 5
     = Inr [[(''result_id'', CUuid 5), (''sample_id'', CUuid 4), (''manufacturing_date'', CDate 100),
             (''analysis_parameter'', CStr ''protein''), (''analysis_value'', CNum 18)],
            [(''result_id'', CUuid 6), (''sample_id'', CUuid 4), (''manufacturing_date'', CDate 200),
             (''analysis_parameter'', CStr ''protein''), (''analysis_value'', CNum 19)]]"
  by code_simp

lemma recurring_finished_product_write:
  "fst (check_and_insert_fp AnalysisResults_upsert AnalysisResults
          [(''result_id'', CUuid 5), (''sample_id'', CUuid 4), (''manufacturing_date'', CDate 100),
           (''analysis_parameter'', CStr ''protein''), (''analysis_value'', CNum 18)] world_f2)
     = Some IntegrityError
   \<and> fst (check_and_insert_fp AnalysisResults_upsert AnalysisResults
          [(''result_id'', CUuid 5), (''sample_id'', CUuid 0), (''manufacturing_date'', CDate 100),
           (''analysis_parameter'', CStr ''protein''), (''analysis_value'', CNum 18)] world_f2)
     = None"
  by code_simp

text \<open>
  C4 on the code. Raw-material loader: \<open>insert_to_db\<close> runs on an empty store over a batch
  in which sample number S1 occurs on day 100 (moisture 5) and on day 200 (moisture 7). Two
  samples are stored, with identifiers 3 (day 100) and 4 (day 200); both analysis results
  refer to sample 4, so the result of day 100 is filed under the sample of day 200.
  Finished-product loader: the store holds F1 of day 100 (identifier 0) and F1 of day 200
  (identifier 4); the reshape gives both results sample 4, and the write of the result of
  day 100 is refused by the foreign key (sample_id, manufacturing_date) of
  \<open>analysis_results\<close>, while the same result under sample 0, the sample matching number and
  date, is accepted.
\<close>

theorem sample_resolved_by_number_alone:
  "map (\<lambda>s. (getc s ''sample_id'', getc s ''sample_no'', getc s ''valuation_date''))
       (committed (snd (insert_to_db no_parse frame_recurring empty_world)) ''samples'')
     = [(CUuid 3, CStr ''S1'', CDate 100), (CUuid 4, CStr ''S1'', CDate 200)]
   \<and> map (\<lambda>a. (getc a ''sample_id'', getc a ''analysis_value'', getc a ''valuation_date''))
       (committed (snd (insert_to_db no_parse frame_recurring empty_world)) ''analysis_results'')
     = [(CUuid 4, CNum 5, CDate 100), (CUuid 4, CNum 7, CDate 200)]
   \<and> map (\<lambda>s. (getc s ''sample_id'', getc s ''sample_no'', getc s ''manufacturing_date''))
       (query_all world_f2 Samples)
     = [(CUuid 0, CStr ''F1'', CDate 100), (CUuid 4, CStr ''F1'', CDate 200)]
   \<and> prepare_analysis_results_fp no_parse fp_frame_recurring (samples_map_fp world_f2) 5
     = Inr [[(''result_id'', CUuid 5), (''sample_id'', CUuid 4), (''manufacturing_date'', CDate 100),
             (''analysis_parameter'', CStr ''protein''), (''analysis_value'', CNum 18)],
            [(''result_id'', CUuid 6), (''sample_id'', CUuid 4), (''manufacturing_date'', CDate 200),
             (''analysis_parameter'', CStr ''protein''), (''analysis_value'', CNum 19)]]
   \<and> fst (check_and_insert_fp AnalysisResults_upsert AnalysisResults
          [(''result_id'', CUuid 5), (''sample_id'', CUuid 4), (''manufacturing_date'', CDate 100),
           (''analysis_parameter'', CStr ''protein''), (''analysis_value'', CNum 18)] world_f2)
     = Some IntegrityError
   \<and> fst (check_and_insert_fp AnalysisResults_upsert AnalysisResults
          [(''result_id'', CUuid 5), (''sample_id'', CUuid 0), (''manufacturing_date'', CDate 100),
           (''analysis_parameter'', CStr ''protein''), (''analysis_value'', CNum 18)] world_f2)
     = None"
  using recurring_raw_material recurring_finished_product_store
    recurring_finished_product_results recurring_finished_product_write
  by simp

section \<open>C3: when the watcher moves a file\<close>

lemma on_created_always_moves:
  assumes "\<not> is_directory" and "endswith name ''.parquet''"
    and "raw_data fs name = Some (Parquet data)" and "has_columns data rm_columns"
  shows "on_created parse is_directory name (w, fs)
           = (snd (insert_to_db parse data w), move_to_complete fs name)"
proof -
  have "fst (insert_to_db parse data w) = None"
    using assms(4) by (rule insert_to_db_returns)
  then show ?thesis
    using assms(1-3)
    by (cases "insert_to_db parse data w") (simp add: on_created_def load_data_def)
qed

lemma sample_undated_filtered:
  "filter (\<lambda>(k, v). k \<in> set (map cname (cols Sample))) (vars sample_undated) = sample_undated"
  by (simp add: Sample_def col_def vars_def sample_undated_def)

lemma sample_undated_names:
  "list_all (\<lambda>k. k \<in> set (map cname (cols Sample))) (map fst sample_undated)"
  by (simp add: Sample_def col_def sample_undated_def)

lemma sample_undated_date:
  "getc (proposed Sample w sample_undated) ''valuation_date'' = CNull"
  by (simp add: proposed_def Sample_def col_def sample_undated_def getc_def)

lemma sample_undated_not_null:
  "\<not> not_null_ok Sample (proposed Sample w sample_undated)"
proof -
  have "col ''valuation_date'' False NoDefault \<in> set (cols Sample)"
    by (simp add: Sample_def)
  moreover have "\<not> (if nullable (col ''valuation_date'' False NoDefault) then True
      else getc (proposed Sample w sample_undated)
             (cname (col ''valuation_date'' False NoDefault)) \<noteq> CNull)"
    using sample_undated_date by (simp add: col_def)
  ultimately show ?thesis
    unfolding not_null_ok_def list_all_iff by blast
qed

lemma undated_sample_fails:
  "check_and_insert_try Sample (by_columns [''sample_no'', ''valuation_date''] sample_undated)
     (vars sample_undated) False w = Inl IntegrityError"
  unfolding check_and_insert_try_def execute_def Let_def sample_undated_filtered
  using sample_undated_names sample_undated_not_null by simp

lemma undated_prepared:
  "prepare_samples frame_undated [CStr ''M1'' \<mapsto> CUuid 0] [CStr ''P1'' \<mapsto> CUuid 1]
     [CStr ''V1'' \<mapsto> CUuid 2] 3 = Inr [sample_undated]"
  by code_simp

lemma undated_tables:
  "map (\<lambda>m. getc m ''material_code'')
       (committed (snd (insert_to_db no_parse frame_undated empty_world)) ''materials'')
     = [CStr ''M1'']
   \<and> committed (snd (insert_to_db no_parse frame_undated empty_world)) ''samples'' = []
   \<and> committed (snd (insert_to_db no_parse frame_undated empty_world)) ''analysis_results'' = []"
  by code_simp

lemma undated_file_moved:
  "fst (on_created no_parse False ''lab.parquet'' (empty_world, folders_lab))
     = snd (insert_to_db no_parse frame_undated empty_world)
   \<and> raw_data (snd (on_created no_parse False ''lab.parquet'' (empty_world, folders_lab)))
        ''lab.parquet'' = None
   \<and> upload_complete (snd (on_created no_parse False ''lab.parquet'' (empty_world, folders_lab)))
        ''lab.parquet'' = Some (Parquet frame_undated)"
proof -
  have e: "endswith ''lab.parquet'' ''.parquet''" by (simp add: endswith_def)
  have r: "raw_data folders_lab ''lab.parquet'' = Some (Parquet frame_undated)"
    by (simp add: folders_lab_def)
  have c: "has_columns frame_undated rm_columns"
    by (simp add: has_columns_def frame_undated_def list_all_iff)
  show ?thesis
    using on_created_always_moves
      [of False "''lab.parquet''" folders_lab frame_undated no_parse empty_world, OF _ e r c]
    by (simp add: move_to_complete_def folders_lab_def)
qed

text \<open>
  C3 on the code of the raw-material watcher. The file \<open>lab.parquet\<close> holds one row without
  valuation date. The loader builds the Sample \<open>sample_undated\<close> from it; the write of that
  Sample raises IntegrityError (NOT NULL on \<open>valuation_date\<close>) in every state of the store.
  \<open>on_created\<close> nevertheless ends with the material stored, no sample and no analysis result
  stored, and the file gone from the watched folder and present in the folder of finished
  files: the file of a failed fact write is relocated.
\<close>

theorem failed_fact_write_file_relocated:
  "prepare_samples frame_undated [CStr ''M1'' \<mapsto> CUuid 0] [CStr ''P1'' \<mapsto> CUuid 1]
     [CStr ''V1'' \<mapsto> CUuid 2] 3 = Inr [sample_undated]
   \<and> (\<forall>w. check_and_insert_try Sample
              (by_columns [''sample_no'', ''valuation_date''] sample_undated)
              (vars sample_undated) False w = Inl IntegrityError)
   \<and> map (\<lambda>m. getc m ''material_code'')
        (committed (fst (on_created no_parse False ''lab.parquet'' (empty_world, folders_lab)))
           ''materials'') = [CStr ''M1'']
   \<and> committed (fst (on_created no_parse False ''lab.parquet'' (empty_world, folders_lab)))
        ''samples'' = []
   \<and> committed (fst (on_created no_parse False ''lab.parquet'' (empty_world, folders_lab)))
        ''analysis_results'' = []
   \<and> raw_data (snd (on_created no_parse False ''lab.parquet'' (empty_world, folders_lab)))
        ''lab.parquet'' = None
   \<and> upload_complete (snd (on_created no_parse False ''lab.parquet'' (empty_world, folders_lab)))
        ''lab.parquet'' = Some (Parquet frame_undated)"
  using undated_prepared undated_sample_fails undated_tables undated_file_moved by simp

section \<open>C1: running the loader twice on the same file\<close>

lemma first_run:
  "map (\<lambda>s. (getc s ''sample_id'', getc s ''sample_no'', getc s ''valuation_date''))
       (committed (snd (insert_to_db no_parse frame_s1 empty_world)) ''samples'')
     = [(CUuid 3, CStr ''S1'', CDate 100)]
   \<and> length (committed (snd (insert_to_db no_parse frame_s1 empty_world)) ''analysis_results'') = 1
   \<and> length (committed (snd (insert_to_db no_parse frame_s1 empty_world)) ''materials'') = 1"
  by code_simp

lemma second_run_samples:
  "map (\<lambda>s. (getc s ''sample_id'', getc s ''sample_no'', getc s ''valuation_date''))
       (committed (snd (insert_to_db no_parse frame_s1
           (snd (insert_to_db no_parse frame_s1 empty_world)))) ''samples'')
     = [(CUuid 3, CStr ''S1'', CDate 100), (CUuid 9, CStr ''S1'', CDate 100)]"
  by code_simp

lemma second_run_others:
  "length (committed (snd (insert_to_db no_parse frame_s1
           (snd (insert_to_db no_parse frame_s1 empty_world)))) ''analysis_results'') = 2
   \<and> length (committed (snd (insert_to_db no_parse frame_s1
           (snd (insert_to_db no_parse frame_s1 empty_world)))) ''materials'') = 1"
  by code_simp

lemma second_upsert_of_sample:
  "fst (check_and_insert_fp Samples_upsert Samples fp_sample_again world_f1) = None
   \<and> map (\<lambda>s. (getc s ''sample_id'', getc s ''sample_no'', getc s ''manufacturing_date''))
        (committed (snd (check_and_insert_fp Samples_upsert Samples fp_sample_again world_f1))
           ''samples'')
      = [(CUuid 0, CStr ''F1'', CDate 100), (CUuid 5, CStr ''F1'', CDate 100)]"
  by code_simp

text \<open>
  C1 on the code. In the raw-material loader \<open>insert_to_db\<close> runs on an empty store over a
  table with one complete row, and then once more over the same table. After the first run
  the store holds one material, one sample (S1, day 100) and one analysis result. After the
  second run it still holds one material, but two samples with the same sample number and
  date and two analysis results: the fact rows are duplicated. The finished-product loader
  does the same to a stored sample: \<open>Samples.upsert\<close> of the entity built on a later run
  returns normally and leaves two samples F1 of day 100.
\<close>

theorem second_run_duplicates_fact_rows:
  "map (\<lambda>s. (getc s ''sample_id'', getc s ''sample_no'', getc s ''valuation_date''))
       (committed (snd (insert_to_db no_parse frame_s1 empty_world)) ''samples'')
     = [(CUuid 3, CStr ''S1'', CDate 100)]
   \<and> length (committed (snd (insert_to_db no_parse frame_s1 empty_world)) ''analysis_results'') = 1
   \<and> length (committed (snd (insert_to_db no_parse frame_s1 empty_world)) ''materials'') = 1
   \<and> map (\<lambda>s. (getc s ''sample_id'', getc s ''sample_no'', getc s ''valuation_date''))
       (committed (snd (insert_to_db no_parse frame_s1
           (snd (insert_to_db no_parse frame_s1 empty_world)))) ''samples'')
     = [(CUuid 3, CStr ''S1'', CDate 100), (CUuid 9, CStr ''S1'', CDate 100)]
   \<and> length (committed (snd (insert_to_db no_parse frame_s1
           (snd (insert_to_db no_parse frame_s1 empty_world)))) ''analysis_results'') = 2
   \<and> length (committed (snd (insert_to_db no_parse frame_s1
           (snd (insert_to_db no_parse frame_s1 empty_world)))) ''materials'') = 1
   \<and> fst (check_and_insert_fp Samples_upsert Samples fp_sample_again world_f1) = None
   \<and> map (\<lambda>s. (getc s ''sample_id'', getc s ''sample_no'', getc s ''manufacturing_date''))
        (committed (snd (check_and_insert_fp Samples_upsert Samples fp_sample_again world_f1))
           ''samples'')
      = [(CUuid 0, CStr ''F1'', CDate 100), (CUuid 5, CStr ''F1'', CDate 100)]"
  using first_run second_run_samples second_run_others second_upsert_of_sample by simp

section \<open>C9: normalisation of numeric columns\<close>













end
